theory Spec2Isabelle
  imports Main "HOL-Library.Word"
begin

section \<open>Python strings\<close>

text \<open>
  A Python \<open>str\<close> is modelled as a \<open>string\<close>; each \<open>char\<close> stands for one code point
  below 256.  The helpers below follow the semantics of the built-in methods the
  application calls: \<open>str.strip()\<close>, \<open>str.split(sep)\<close>, \<open>str.split(sep, maxsplit)\<close>,
  \<open>str.replace\<close>, \<open>str.lower\<close>, \<open>str.startswith\<close> and \<open>str.endswith\<close>.
\<close>

definition is_space :: "char \<Rightarrow> bool" where
  \<comment> \<open>\<open>str.isspace\<close> on the code points below 256: TAB..CR, FS..US, SPACE, NEL, NBSP\<close>
  "is_space c =
     (let n = (of_char c :: nat)
      in (9 \<le> n \<and> n \<le> 13) \<or> (28 \<le> n \<and> n \<le> 32) \<or> n = 133 \<or> n = 160)"

definition lstrip :: "string \<Rightarrow> string" where
  "lstrip s = dropWhile is_space s"

definition rstrip :: "string \<Rightarrow> string" where
  "rstrip s = rev (dropWhile is_space (rev s))"

definition strip :: "string \<Rightarrow> string" where
  "strip s = rstrip (lstrip s)"

fun split :: "char \<Rightarrow> string \<Rightarrow> string list" where
  \<comment> \<open>\<open>s.split(sep)\<close> for a one-character separator: every occurrence splits\<close>
  "split sep [] = [[]]"
| "split sep (x # xs) =
     (if x = sep then [] # split sep xs
      else (case split sep xs of
              p # ps \<Rightarrow> (x # p) # ps
            | [] \<Rightarrow> [[x]]))"

fun split_max :: "char \<Rightarrow> nat \<Rightarrow> string \<Rightarrow> string list" where
  \<comment> \<open>\<open>s.split(sep, maxsplit)\<close>: only the first \<open>maxsplit\<close> occurrences split\<close>
  "split_max sep 0 s = [s]"
| "split_max sep (Suc n) [] = [[]]"
| "split_max sep (Suc n) (x # xs) =
     (if x = sep then [] # split_max sep n xs
      else (case split_max sep (Suc n) xs of
              p # ps \<Rightarrow> (x # p) # ps
            | [] \<Rightarrow> [[x]]))"

definition replace_char :: "char \<Rightarrow> char \<Rightarrow> string \<Rightarrow> string" where
  \<comment> \<open>\<open>s.replace(a, b)\<close> for one-character \<open>a\<close> and \<open>b\<close>\<close>
  "replace_char a b s = map (\<lambda>c. if c = a then b else c) s"

definition lower_char :: "char \<Rightarrow> char" where
  \<comment> \<open>\<open>str.lower\<close> on the code points below 256: A..Z and the accented capitals except the
      multiplication sign\<close>
  "lower_char c =
     (let n = (of_char c :: nat)
      in if (65 \<le> n \<and> n \<le> 90) \<or> (192 \<le> n \<and> n \<le> 222 \<and> n \<noteq> 215)
         then char_of (n + 32) else c)"

definition lower :: "string \<Rightarrow> string" where
  "lower s = map lower_char s"

definition startswith :: "string \<Rightarrow> string \<Rightarrow> bool" where
  \<comment> \<open>\<open>s.startswith(p)\<close>\<close>
  "startswith s p = (take (length p) s = p)"

definition endswith :: "string \<Rightarrow> string \<Rightarrow> bool" where
  \<comment> \<open>\<open>s.endswith(p)\<close>\<close>
  "endswith s p = (length p \<le> length s \<and> drop (length s - length p) s = p)"

section \<open>Spreadsheet cells and rows\<close>

text \<open>
  A row of the fetched sheet is a \<open>pandas.Series\<close>: a mapping from column name to a scalar.
  The scalars the CSV reader and the added \<open>Date_parsed\<close> column produce are strings,
  integers, floats, booleans, the missing-value marker NaN, \<open>None\<close>, timestamps and NaT.
  A float other than NaN is given by its IEEE 754 bit pattern; its decimal text comes from
  the environment.
\<close>

datatype pyfloat = PyFloat "64 word"

definition float_is_zero :: "pyfloat \<Rightarrow> bool" where
  \<comment> \<open>\<open>0.0\<close> and \<open>-0.0\<close>\<close>
  "float_is_zero f = (case f of PyFloat w \<Rightarrow> w = 0 \<or> w = 0x8000000000000000)"

record date =
  year :: nat
  month :: nat
  day :: nat

record timestamp =
  on_date :: date
  hour :: nat
  minute :: nat
  second :: nat
  nanosecond :: nat

datatype cell =
    VStr string
  | VInt int
  | VFloat pyfloat
  | VBool bool
  | VNaN
  | VNone
  | VNaT
  | VTimestamp timestamp

type_synonym row = "string \<rightharpoonup> cell"

definition row_get :: "row \<Rightarrow> string \<Rightarrow> cell \<Rightarrow> cell" where
  \<comment> \<open>\<open>row.get(key, default)\<close>\<close>
  "row_get r k d = (case r k of Some v \<Rightarrow> v | None \<Rightarrow> d)"

definition isna :: "cell \<Rightarrow> bool" where
  \<comment> \<open>\<open>pd.isna(v)\<close> on a scalar\<close>
  "isna v = (case v of VNaN \<Rightarrow> True | VNone \<Rightarrow> True | VNaT \<Rightarrow> True | _ \<Rightarrow> False)"

definition is_none :: "cell \<Rightarrow> bool" where
  \<comment> \<open>\<open>v is None\<close>\<close>
  "is_none v = (case v of VNone \<Rightarrow> True | _ \<Rightarrow> False)"

definition missing_or_null :: "row \<Rightarrow> string \<Rightarrow> bool" where
  \<comment> \<open>the row has no such column, or holds a null marker there\<close>
  "missing_or_null r col = (case r col of None \<Rightarrow> True | Some v \<Rightarrow> isna v)"

section \<open>Site name parser\<close>

definition parse_site_name :: "cell \<Rightarrow> string \<times> string \<times> string" where
  "parse_site_name raw =
     (case raw of
        VStr s \<Rightarrow>
          (let parts = split_max CHR ''-'' 2 s
           in if length parts < 3 then ('''', '''', strip s)
              else (strip (parts ! 0), strip (parts ! 1), strip (parts ! 2)))
      | _ \<Rightarrow> ('''', '''', ''''))"

section \<open>What Python and the libraries compute\<close>

text \<open>
  Everything the application obtains from outside its own source file is a field of the
  environment: the network, the file system, the pandas parsers, the document library
  and the few Python conversions whose result is a matter of floating-point or locale
  formatting.  Every field is a function, so one request sees one fixed answer per
  question.
\<close>

type_synonym bytes = "8 word list"

datatype py_error =
    FileNotFoundError string
  | TypeError string
  | UnrecognizedImageError

datatype http_result =
    Request_failed
  | Http_response int "string option" bytes

datatype template = Uploaded bytes | On_disk string

datatype inline_image = InlineImage template bytes nat

datatype ctx_value =
    Cell cell
  | Images "inline_image list"
  | Strings "string list"

type_synonym "context" = "(string \<times> ctx_value) list"

record dataframe =
  df_columns :: "string list"
  df_rows :: "row list"

record env =
  float_str :: "pyfloat \<Rightarrow> string"
  timestamp_str :: "timestamp \<Rightarrow> string"
  to_datetime :: "cell \<Rightarrow> timestamp option"
  series_to_datetime :: "cell list \<Rightarrow> cell \<Rightarrow> timestamp option"
  requests_get :: "string \<Rightarrow> http_result"
  b64encode :: "bytes \<Rightarrow> string"
  inline_image_rejects :: "bytes \<Rightarrow> bool"
  docx_render :: "template \<Rightarrow> context \<Rightarrow> py_error + bytes"
  path_exists :: "string \<Rightarrow> bool"
  read_csv :: "string \<Rightarrow> string + dataframe"
  strptime :: "string \<Rightarrow> date option"
  int_of_str :: "string \<Rightarrow> int option"

text \<open>
  \<^item> \<open>float_str\<close>, \<open>timestamp_str\<close>: \<open>str()\<close> of a float and of a timestamp.
  \<^item> \<open>to_datetime\<close>: \<open>pd.to_datetime(v)\<close> on a scalar that is not already a timestamp;
    \<open>None\<close> when it raises or yields a value that cannot be formatted.
  \<^item> \<open>series_to_datetime col v\<close>: the entry that
    \<open>pd.to_datetime(col, errors="coerce")\<close> holds for the value \<open>v\<close> of the column
    \<open>col\<close>; \<open>None\<close> is NaT.
  \<^item> \<open>requests_get\<close>: \<open>requests.get(url, timeout=15)\<close>, giving the status code, the
    \<open>Content-Type\<close> header if any and the body, or failing with an exception.
  \<^item> \<open>inline_image_rejects\<close>: whether the constructor \<open>InlineImage(tpl, bytes, width)\<close>
    raises \<open>UnrecognizedImageError\<close> for the bytes.  The constructor of docxtpl only stores
    its arguments and raises nothing; the bytes are decoded when the template is rendered.
  \<^item> \<open>docx_render\<close>: \<open>tpl.render(ctx)\<close> followed by \<open>tpl.save(buffer)\<close>; \<open>Inl\<close> is an
    exception raised while rendering, such as \<open>UnrecognizedImageError\<close> for image bytes
    that cannot be decoded.
  \<^item> \<open>read_csv\<close>: \<open>pd.read_csv(url)\<close>; \<open>Inl\<close> carries the text of the exception.
  \<^item> \<open>strptime\<close>: \<open>datetime.strptime(s, "%Y-%m-%d").date()\<close>; \<open>None\<close> is \<open>ValueError\<close>.
  \<^item> \<open>int_of_str\<close>: \<open>int(s)\<close>; \<open>None\<close> is \<open>ValueError\<close>.
\<close>

definition truthy :: "env \<Rightarrow> cell \<Rightarrow> bool" where
  \<comment> \<open>\<open>bool(v)\<close>\<close>
  "truthy e v =
     (case v of
        VStr s \<Rightarrow> s \<noteq> []
      | VInt i \<Rightarrow> i \<noteq> 0
      | VFloat f \<Rightarrow> \<not> float_is_zero f
      | VBool b \<Rightarrow> b
      | VNaN \<Rightarrow> True
      | VNone \<Rightarrow> False
      | VNaT \<Rightarrow> True
      | VTimestamp ts \<Rightarrow> True)"

definition py_or :: "env \<Rightarrow> cell \<Rightarrow> cell \<Rightarrow> cell" where
  \<comment> \<open>\<open>v or d\<close>\<close>
  "py_or e v d = (if truthy e v then v else d)"

fun digits_of :: "nat \<Rightarrow> string" where
  "digits_of n =
     (if n < 10 then [char_of (48 + n)]
      else digits_of (n div 10) @ [char_of (48 + n mod 10)])"

declare digits_of.simps [simp del]

definition str_int :: "int \<Rightarrow> string" where
  "str_int i = (if i < 0 then CHR ''-'' # digits_of (nat (- i)) else digits_of (nat i))"

definition py_str :: "env \<Rightarrow> cell \<Rightarrow> string" where
  \<comment> \<open>\<open>str(v)\<close>\<close>
  "py_str e v =
     (case v of
        VStr s \<Rightarrow> s
      | VInt i \<Rightarrow> str_int i
      | VFloat f \<Rightarrow> float_str e f
      | VBool b \<Rightarrow> (if b then ''True'' else ''False'')
      | VNaN \<Rightarrow> ''nan''
      | VNone \<Rightarrow> ''None''
      | VNaT \<Rightarrow> ''NaT''
      | VTimestamp ts \<Rightarrow> timestamp_str e ts)"

definition zfill :: "nat \<Rightarrow> string \<Rightarrow> string" where
  "zfill w s = replicate (w - length s) CHR ''0'' @ s"

definition strftime_dmy :: "timestamp \<Rightarrow> string" where
  \<comment> \<open>\<open>ts.strftime("%d/%m/%Y")\<close>; \<open>%Y\<close> is the plain decimal year, four digits from
      the year 1000 on\<close>
  "strftime_dmy ts =
     zfill 2 (digits_of (day (on_date ts))) @ ''/'' @
     zfill 2 (digits_of (month (on_date ts))) @ ''/'' @
     digits_of (year (on_date ts))"

definition isoformat :: "date \<Rightarrow> string" where
  \<comment> \<open>\<open>str(d)\<close> of a \<open>datetime.date\<close>, as the f-strings interpolate it\<close>
  "isoformat d =
     zfill 4 (digits_of (year d)) @ ''-'' @
     zfill 2 (digits_of (month d)) @ ''-'' @
     zfill 2 (digits_of (day d))"

definition pd_to_datetime :: "env \<Rightarrow> cell \<Rightarrow> timestamp option" where
  \<comment> \<open>\<open>pd.to_datetime(v)\<close> on a scalar: a timestamp is returned as it is\<close>
  "pd_to_datetime e v = (case v of VTimestamp ts \<Rightarrow> Some ts | _ \<Rightarrow> to_datetime e v)"

fun dict_set :: "('k \<times> 'v) list \<Rightarrow> 'k \<Rightarrow> 'v \<Rightarrow> ('k \<times> 'v) list" where
  \<comment> \<open>\<open>d[k] = v\<close> on a dictionary kept in insertion order\<close>
  "dict_set [] k v = [(k, v)]"
| "dict_set ((k', v') # kvs) k v =
     (if k' = k then (k, v) # kvs else (k', v') # dict_set kvs k v)"

section \<open>Regular expressions of the link patterns\<close>

text \<open>
  \<open>re.search(p, s)\<close> tries the pattern at every position from the left and returns the
  first match.  The three patterns of the source are a literal followed by a greedy run
  of the class \<open>[A-Za-z0-9_-]+\<close>, one of them closed by a slash; the function below gives
  group 1 of the match of such a pattern at the start of a string.
\<close>

definition id_char :: "char \<Rightarrow> bool" where
  "id_char c =
     (let n = (of_char c :: nat)
      in (65 \<le> n \<and> n \<le> 90) \<or> (97 \<le> n \<and> n \<le> 122) \<or> (48 \<le> n \<and> n \<le> 57) \<or>
         c = CHR ''_'' \<or> c = CHR ''-'')"

definition match_here :: "string \<Rightarrow> bool \<Rightarrow> string \<Rightarrow> string option" where
  \<comment> \<open>the literal \<open>lit\<close>, then the longest non-empty run of the class as group 1, then a
      slash if \<open>slash\<close> is set.  A shorter run is never followed by a slash, so
      backtracking finds nothing the longest run does not.\<close>
  "match_here lit slash s =
     (if startswith s lit then
        (let g = takeWhile id_char (drop (length lit) s);
             rest = dropWhile id_char (drop (length lit) s)
         in if g \<noteq> [] \<and> (if slash then startswith rest ''/'' else True) then Some g else None)
      else None)"

fun re_search :: "(string \<Rightarrow> string option) \<Rightarrow> string \<Rightarrow> string option" where
  "re_search m [] = m []"
| "re_search m (c # cs) =
     (case m (c # cs) of Some g \<Rightarrow> Some g | None \<Rightarrow> re_search m cs)"

definition pattern_occurs :: "string \<Rightarrow> bool \<Rightarrow> string \<Rightarrow> bool" where
  \<comment> \<open>what it means for such a pattern to match somewhere in \<open>s\<close>: the literal, one or more
      characters of the class and, if \<open>slash\<close> is set, a slash occur in a row\<close>
  "pattern_occurs lit slash s =
     (\<exists>pre g post.
        s = pre @ lit @ g @ (if slash then ''/'' else []) @ post \<and> g \<noteq> [] \<and> list_all id_char g)"

section \<open>Google Sheet helpers\<close>

definition extract_sheet_id :: "string \<Rightarrow> string" where
  "extract_sheet_id sheet_input =
     (case re_search (match_here ''/spreadsheets/d/'' False) sheet_input of
        Some g \<Rightarrow> g
      | None \<Rightarrow> strip sheet_input)"

definition load_sheet_via_csv :: "env \<Rightarrow> string \<Rightarrow> string option \<Rightarrow> string + dataframe" where
  "load_sheet_via_csv e sheet_input gid =
     (let sheet_id = extract_sheet_id sheet_input;
          url = ''https://docs.google.com/spreadsheets/d/'' @ sheet_id @ ''/export?format=csv'';
          url' = (case gid of
                    Some g \<Rightarrow> if g \<noteq> [] then url @ ''&gid='' @ g else url
                  | None \<Rightarrow> url)
      in read_csv e url')"

section \<open>Google Drive image downloader\<close>

fun first_group :: "(string \<Rightarrow> string option) list \<Rightarrow> string \<Rightarrow> string" where
  \<comment> \<open>the loop over \<open>patterns\<close>: group 1 of the first pattern that matches, else \<open>""\<close>\<close>
  "first_group [] url = ''''"
| "first_group (p # ps) url =
     (case re_search p url of Some g \<Rightarrow> g | None \<Rightarrow> first_group ps url)"

definition extract_drive_file_id :: "string \<Rightarrow> string" where
  "extract_drive_file_id url =
     first_group [match_here ''id='' False, match_here ''/d/'' True] url"

definition download_drive_image :: "env \<Rightarrow> string \<Rightarrow> bytes option" where
  "download_drive_image e url =
     (let file_id = extract_drive_file_id url
      in if file_id = [] then None
         else
           (case requests_get e (''https://drive.google.com/uc?export=download&id='' @ file_id) of
              Request_failed \<Rightarrow> None
            | Http_response status_code header body \<Rightarrow>
                if status_code = 200 then
                  (let content_type = (case header of Some t \<Rightarrow> t | None \<Rightarrow> '''')
                   in if startswith content_type ''image/'' then Some body else None)
                else None))"

definition image_bytes_to_data_uri :: "env \<Rightarrow> bytes \<Rightarrow> string \<Rightarrow> string" where
  "image_bytes_to_data_uri e img_bytes mime_type =
     ''data:'' @ mime_type @ '';base64,'' @ b64encode e img_bytes"

section \<open>Context helpers\<close>

definition normalize_value :: "cell \<Rightarrow> cell" where
  \<comment> \<open>the body of the loop over \<open>ctx.items()\<close>\<close>
  "normalize_value v = (if isna v then VStr '''' else if is_none v then VStr '''' else v)"

definition build_context_from_row :: "env \<Rightarrow> row \<Rightarrow> (string \<times> cell) list" where
  "build_context_from_row e r =
     (let raw_site = row_get r ''Site Name'' (VStr '''');
          (zone, unit_code, sitename) = parse_site_name raw_site;
          parsed_date = row_get r ''Date_parsed'' VNone;
          raw_date = py_str e (py_or e (row_get r ''Date'' (VStr '''')) (VStr ''''));
          formatted_date =
            (if \<not> is_none parsed_date \<and> \<not> isna parsed_date then
               (case pd_to_datetime e parsed_date of
                  Some ts \<Rightarrow> strftime_dmy ts
                | None \<Rightarrow> raw_date)
             else raw_date);
          ctx =
            [(''zone'', VStr zone),
             (''unit_code'', VStr unit_code),
             (''site_name'', py_or e (VStr sitename) raw_site),
             (''date'', VStr formatted_date),
             (''time'', row_get r ''Time'' (VStr '''')),
             (''attendance_register'',
                row_get r ''Documentation Check [Attendance Register]'' (VStr '''')),
             (''handling_register'',
                row_get r ''Documentation Check [Handling / Taking Over Register]'' (VStr '''')),
             (''material_register'',
                row_get r ''Documentation Check [Visitor Log Register]'' (VStr '''')),
             (''grooming'', row_get r ''Performance Check [Grooming]'' (VStr '''')),
             (''alertness'', row_get r ''Performance Check [Alertness]'' (VStr '''')),
             (''post_discipline'', row_get r ''Performance Check [Post Discipline]'' (VStr '''')),
             (''overall_rating'', row_get r ''Performance Check [Overall Rating]'' (VStr '''')),
             (''observation'', row_get r ''Observation'' (VStr '''')),
             (''inspected_by'', row_get r ''Inspected By'' (VStr ''''))]
      in map (\<lambda>(k, v). (k, normalize_value v)) ctx)"

definition image_links :: "string \<Rightarrow> string list" where
  \<comment> \<open>\<open>[u.strip() for u in images_raw.split(",") if u.strip()]\<close>\<close>
  "image_links images_raw = [strip u. u \<leftarrow> split CHR '','' images_raw, strip u \<noteq> []]"

definition images_field :: "env \<Rightarrow> row \<Rightarrow> string" where
  \<comment> \<open>\<open>str(row.get("Images", "") or "")\<close>\<close>
  "images_field e r = py_str e (py_or e (row_get r ''Images'' (VStr '''')) (VStr ''''))"

definition mime_for_url :: "string \<Rightarrow> string" where
  \<comment> \<open>the extension test on the link\<close>
  "mime_for_url url =
     (let ext = lower (last (split CHR ''.'' (hd (split CHR ''?'' url))))
      in if ext = ''jpg'' \<or> ext = ''jpeg'' then ''image/jpeg''
         else if ext = ''png'' then ''image/png''
         else ''image/jpeg'')"

fun data_uris_loop :: "env \<Rightarrow> string list \<Rightarrow> string list \<Rightarrow> string list" where
  "data_uris_loop e uris [] = uris"
| "data_uris_loop e uris (url # urls) =
     (case download_drive_image e url of
        Some img_bytes \<Rightarrow>
          data_uris_loop e (uris @ [image_bytes_to_data_uri e img_bytes (mime_for_url url)]) urls
      | None \<Rightarrow> data_uris_loop e uris urls)"

definition data_uri_of_link :: "env \<Rightarrow> string \<Rightarrow> string list" where
  \<comment> \<open>what one link adds to \<open>uris\<close> in one turn of the loop\<close>
  "data_uri_of_link e url =
     (case download_drive_image e url of
        Some img_bytes \<Rightarrow> [''data:'' @ mime_for_url url @ '';base64,'' @ b64encode e img_bytes]
      | None \<Rightarrow> [])"

definition with_content_type :: "env \<Rightarrow> string \<Rightarrow> env" where
  \<comment> \<open>the same environment, except that every answer declared as an image is declared
      with the type \<open>t\<close> instead\<close>
  "with_content_type e t =
     e\<lparr>requests_get :=
         (\<lambda>url. case requests_get e url of
                  Request_failed \<Rightarrow> Request_failed
                | Http_response status_code header body \<Rightarrow>
                    (case header of
                       Some content_type \<Rightarrow>
                         if startswith content_type ''image/''
                         then Http_response status_code (Some t) body
                         else Http_response status_code header body
                     | None \<Rightarrow> Http_response status_code header body))\<rparr>"

definition get_image_data_uris_for_row :: "env \<Rightarrow> row \<Rightarrow> string list" where
  "get_image_data_uris_for_row e r =
     (let images_raw = images_field e r
      in if images_raw = [] then [] else data_uris_loop e [] (image_links images_raw))"

section \<open>Document rendering\<close>

definition new_inline_image :: "env \<Rightarrow> template \<Rightarrow> bytes \<Rightarrow> py_error + inline_image" where
  \<comment> \<open>\<open>InlineImage(tpl, img_bytes, width=Inches(2.5))\<close>; 2.5 inches are 2286000 EMU\<close>
  "new_inline_image e tpl img_bytes =
     (if inline_image_rejects e img_bytes then Inl UnrecognizedImageError
      else Inr (InlineImage tpl img_bytes 2286000))"

definition open_template :: "env \<Rightarrow> bytes option \<Rightarrow> string option \<Rightarrow> py_error + template" where
  "open_template e template_bytes template_path =
     (let from_path =
            (case template_path of
               None \<Rightarrow> Inl (FileNotFoundError ''No valid template.docx found.'')
             | Some p \<Rightarrow>
                 if p = [] \<or> \<not> path_exists e p
                 then Inl (FileNotFoundError ''No valid template.docx found.'')
                 else Inr (On_disk p))
      in case template_bytes of
           Some b \<Rightarrow> if b \<noteq> [] then Inr (Uploaded b) else from_path
         | None \<Rightarrow> from_path)"

fun inline_images_loop ::
  "env \<Rightarrow> template \<Rightarrow> inline_image list \<Rightarrow> string list \<Rightarrow> inline_image list" where
  "inline_images_loop e tpl inline_images [] = inline_images"
| "inline_images_loop e tpl inline_images (url # urls) =
     (case download_drive_image e url of
        Some img_bytes \<Rightarrow>
          (case new_inline_image e tpl img_bytes of
             Inr im \<Rightarrow> inline_images_loop e tpl (inline_images @ [im]) urls
           | Inl err \<Rightarrow> inline_images_loop e tpl inline_images urls)
      | None \<Rightarrow> inline_images_loop e tpl inline_images urls)"

definition embed_link :: "env \<Rightarrow> template \<Rightarrow> string \<Rightarrow> inline_image list" where
  \<comment> \<open>what one link adds to \<open>inline_images\<close> in one turn of the loop\<close>
  "embed_link e tpl url =
     (case download_drive_image e url of
        Some img_bytes \<Rightarrow>
          if inline_image_rejects e img_bytes then [] else [InlineImage tpl img_bytes 2286000]
      | None \<Rightarrow> [])"

definition row_inline_images :: "env \<Rightarrow> template \<Rightarrow> row \<Rightarrow> inline_image list" where
  "row_inline_images e tpl r =
     (let images_raw = images_field e r
      in if images_raw \<noteq> [] then inline_images_loop e tpl [] (image_links images_raw) else [])"

definition as_context :: "(string \<times> cell) list \<Rightarrow> context" where
  "as_context ctx = map (\<lambda>(k, v). (k, Cell v)) ctx"

definition render_with :: "env \<Rightarrow> template \<Rightarrow> row \<Rightarrow> py_error + bytes" where
  \<comment> \<open>\<open>render_docx_row\<close> once the template is open\<close>
  "render_with e tpl r =
     (let ctx = as_context (build_context_from_row e r);
          inline_images = row_inline_images e tpl r;
          ctx' = dict_set ctx ''images'' (Images inline_images)
      in docx_render e tpl ctx')"

definition render_docx_row ::
  "env \<Rightarrow> row \<Rightarrow> bytes option \<Rightarrow> string option \<Rightarrow> py_error + bytes" where
  "render_docx_row e r template_bytes template_path =
     (case open_template e template_bytes template_path of
        Inl err \<Rightarrow> Inl err
      | Inr tpl \<Rightarrow> render_with e tpl r)"

section \<open>Requests and responses\<close>

record upload =
  up_filename :: string
  up_data :: bytes

record request =
  req_method :: string
  req_form :: "string \<rightharpoonup> string"
  req_args :: "string \<rightharpoonup> string"
  req_files :: "string \<rightharpoonup> upload"

datatype flash_category = Flash_error | Flash_warning

type_synonym archive = "(string \<times> bytes) list"

datatype response =
    Redirect_index flash_category string
  | Redirect_preview string string string int
  | Send_file string archive
  | Render_index
  | Render_preview "context"

text \<open>
  \<^item> \<open>Redirect_index c msg\<close>: \<open>flash(msg, c)\<close> followed by \<open>redirect(url_for("index"))\<close>.
  \<^item> \<open>Redirect_preview sheet_input gid date idx\<close>: the redirect to the preview route.
  \<^item> \<open>Send_file name entries\<close>: \<open>send_file\<close> of the archive under the download name.
  \<^item> \<open>Render_index\<close>, \<open>Render_preview ctx\<close>: \<open>render_template\<close> of the two pages.
\<close>

definition get_or :: "(string \<rightharpoonup> string) \<Rightarrow> string \<Rightarrow> string \<Rightarrow> string" where
  \<comment> \<open>\<open>request.form.get(key, default)\<close> and \<open>request.args.get(key, default)\<close>\<close>
  "get_or m k d = (case m k of Some v \<Rightarrow> v | None \<Rightarrow> d)"

section \<open>The date filter\<close>

definition date_column :: "dataframe \<Rightarrow> cell list" where
  \<comment> \<open>\<open>df["Date"]\<close>; a row without a value in the column holds NaN there\<close>
  "date_column df = map (\<lambda>r. row_get r ''Date'' VNaN) (df_rows df)"

definition parse_date_cell :: "env \<Rightarrow> dataframe \<Rightarrow> row \<Rightarrow> timestamp option" where
  \<comment> \<open>the entry of \<open>pd.to_datetime(df["Date"], errors="coerce")\<close> for the row \<open>r\<close>\<close>
  "parse_date_cell e df r = series_to_datetime e (date_column df) (row_get r ''Date'' VNaN)"

definition add_date_parsed :: "env \<Rightarrow> dataframe \<Rightarrow> row list" where
  \<comment> \<open>\<open>df["Date_parsed"] = pd.to_datetime(df["Date"], errors="coerce")\<close>\<close>
  "add_date_parsed e df =
     map (\<lambda>r. r(''Date_parsed'' \<mapsto>
                   (case parse_date_cell e df r of
                      Some ts \<Rightarrow> VTimestamp ts
                    | None \<Rightarrow> VNaT)))
         (df_rows df)"

definition date_matches :: "date \<Rightarrow> row \<Rightarrow> bool" where
  \<comment> \<open>one entry of the mask \<open>df["Date_parsed"].dt.date == target_date\<close>\<close>
  "date_matches target_date r =
     (case r ''Date_parsed'' of
        Some (VTimestamp ts) \<Rightarrow> on_date ts = target_date
      | _ \<Rightarrow> False)"

definition filter_by_date :: "env \<Rightarrow> dataframe \<Rightarrow> date \<Rightarrow> row list" where
  \<comment> \<open>\<open>df_date\<close>, the same two lines in both routes\<close>
  "filter_by_date e df target_date = filter (date_matches target_date) (add_date_parsed e df)"

definition fetch_rows ::
  "env \<Rightarrow> (string \<rightharpoonup> string) \<Rightarrow> string
     \<Rightarrow> response + (string \<times> string option \<times> string \<times> date \<times> row list)" where
  \<comment> \<open>the steps both routes perform alike, from reading the parameters to \<open>df_date\<close>;
      the routes differ in the message for a missing sheet or date\<close>
  "fetch_rows e params missing_msg =
     (let sheet_input = strip (get_or params ''sheet_input'' '''');
          gid = (let g = strip (get_or params ''gid'' '''')
                 in if g \<noteq> [] then Some g else None);
          date_str = strip (get_or params ''date'' '''')
      in if sheet_input = [] \<or> date_str = [] then
           Inl (Redirect_index Flash_error missing_msg)
         else
           (case strptime e date_str of
              None \<Rightarrow> Inl (Redirect_index Flash_error ''Invalid date format.'')
            | Some target_date \<Rightarrow>
                (case load_sheet_via_csv e sheet_input gid of
                   Inl msg \<Rightarrow>
                     Inl (Redirect_index Flash_error (''Unable to load Google Sheet: '' @ msg))
                 | Inr df \<Rightarrow>
                     if ''Date'' \<notin> set (df_columns df) then
                       Inl (Redirect_index Flash_error ''Column 'Date' missing in Google Sheet.'')
                     else
                       (let df_date = filter_by_date e df target_date
                        in if df_date = [] then
                             Inl (Redirect_index Flash_warning
                                    (''No records found for '' @ isoformat target_date @ ''.''))
                           else Inr (sheet_input, gid, date_str, target_date, df_date)))))"

section \<open>Route: home (form and archive download)\<close>

definition site_slug :: "row \<Rightarrow> string" where
  "site_slug r =
     (let (zone, unit_code, sitename) = parse_site_name (row_get r ''Site Name'' (VStr ''Site''))
      in replace_char CHR '' '' CHR ''_'' (if sitename \<noteq> [] then sitename else ''Site''))"

definition archive_name :: "date \<Rightarrow> row \<Rightarrow> string" where
  \<comment> \<open>\<open>filename\<close>\<close>
  "archive_name target_date r = isoformat target_date @ ''_'' @ site_slug r @ ''.docx''"

definition writestr :: "archive \<Rightarrow> string \<Rightarrow> bytes \<Rightarrow> archive" where
  \<comment> \<open>\<open>ZipFile.writestr\<close>: a new member is appended; a name already present only draws a
      warning\<close>
  "writestr zipf name data = zipf @ [(name, data)]"

definition zip_read :: "archive \<Rightarrow> string \<Rightarrow> bytes option" where
  \<comment> \<open>\<open>ZipFile.read(name)\<close>: the name index points at the member written last\<close>
  "zip_read zipf name = map_of (rev zipf) name"

fun zip_rows ::
  "env \<Rightarrow> date \<Rightarrow> bytes option \<Rightarrow> string option \<Rightarrow> archive \<Rightarrow> row list
     \<Rightarrow> py_error + archive" where
  "zip_rows e target_date template_bytes template_path zipf [] = Inr zipf"
| "zip_rows e target_date template_bytes template_path zipf (r # rs) =
     (case render_docx_row e r template_bytes template_path of
        Inl err \<Rightarrow> Inl err
      | Inr docx_buf \<Rightarrow>
          zip_rows e target_date template_bytes template_path
            (writestr zipf (archive_name target_date r) docx_buf) rs)"

definition os_path_exists :: "env \<Rightarrow> string option \<Rightarrow> py_error + bool" where
  \<comment> \<open>\<open>os.path.exists(path)\<close>; it raises \<open>TypeError\<close> on \<open>None\<close>\<close>
  "os_path_exists e path =
     (case path of
        None \<Rightarrow> Inl (TypeError ''stat: path should be string, bytes, os.PathLike or integer, not NoneType'')
      | Some p \<Rightarrow> Inr (path_exists e p))"

definition download_zip ::
  "env \<Rightarrow> date \<Rightarrow> bytes option \<Rightarrow> string option \<Rightarrow> row list \<Rightarrow> py_error + response" where
  \<comment> \<open>the branch \<open>action == "download_zip"\<close>\<close>
  "download_zip e target_date template_bytes template_path df_date =
     (let no_bytes = (case template_bytes of Some b \<Rightarrow> b = [] | None \<Rightarrow> True)
      in case (if no_bytes
               then (case os_path_exists e template_path of
                       Inl err \<Rightarrow> Inl err
                     | Inr ex \<Rightarrow> Inr (\<not> ex))
               else Inr False) of
           Inl err \<Rightarrow> Inl err
         | Inr True \<Rightarrow>
             Inr (Redirect_index Flash_error
                    ''No template uploaded and template.docx not found in project folder.'')
         | Inr False \<Rightarrow>
             (case zip_rows e target_date template_bytes template_path [] df_date of
                Inl err \<Rightarrow> Inl err
              | Inr zipf \<Rightarrow>
                  Inr (Send_file (''night_checks_'' @ isoformat target_date @ ''.zip'') zipf)))"

definition choose_template :: "request \<Rightarrow> response + (bytes option \<times> string option)" where
  \<comment> \<open>template upload or default\<close>
  "choose_template req =
     (case req_files req ''template_file'' of
        Some uploaded_template \<Rightarrow>
          if up_filename uploaded_template \<noteq> [] then
            (if \<not> endswith (lower (up_filename uploaded_template)) ''.docx''
             then Inl (Redirect_index Flash_error ''Template must be a .docx file.'')
             else Inr (Some (up_data uploaded_template), None))
          else Inr (None, Some ''template.docx'')
      | None \<Rightarrow> Inr (None, Some ''template.docx''))"

definition index :: "env \<Rightarrow> request \<Rightarrow> py_error + response" where
  "index e req =
     (if req_method req = ''POST'' then
        (let action = get_or (req_form req) ''action'' ''download_zip''
         in case fetch_rows e (req_form req) ''Please enter sheet URL/ID and date.'' of
              Inl resp \<Rightarrow> Inr resp
            | Inr (sheet_input, gid, date_str, target_date, df_date) \<Rightarrow>
                (case choose_template req of
                   Inl resp \<Rightarrow> Inr resp
                 | Inr (template_bytes, template_path) \<Rightarrow>
                     if action = ''download_zip'' then
                       download_zip e target_date template_bytes template_path df_date
                     else if action = ''preview'' then
                       Inr (Redirect_preview sheet_input
                              (case gid of Some g \<Rightarrow> g | None \<Rightarrow> '''')
                              date_str 0)
                     else
                       Inr (Redirect_index Flash_error ''Unknown action.'')))
      else Inr Render_index)"

section \<open>Route: preview with next and previous\<close>

definition clamp_index :: "int \<Rightarrow> int \<Rightarrow> int" where
  \<comment> \<open>the two \<open>if\<close> statements on \<open>idx\<close>\<close>
  "clamp_index idx total_n =
     (let idx1 = (if idx < 0 then 0 else idx)
      in if idx1 > total_n - 1 then total_n - 1 else idx1)"

definition preview_context :: "env \<Rightarrow> string \<Rightarrow> string option \<Rightarrow> string \<Rightarrow> int \<Rightarrow> row list \<Rightarrow> context" where
  \<comment> \<open>from \<open>total = len(df_date)\<close> (here \<open>total_n\<close>) to the arguments of \<open>render_template\<close>\<close>
  "preview_context e sheet_input gid date_str idx0 df_date =
     (let total_n = int (length df_date);
          idx = clamp_index idx0 total_n;
          r = df_date ! nat idx;
          ctx = as_context (build_context_from_row e r);
          ctx = dict_set ctx ''images_html'' (Strings (get_image_data_uris_for_row e r));
          ctx = dict_set ctx ''sheet_input'' (Cell (VStr sheet_input));
          ctx = dict_set ctx ''gid'' (Cell (VStr (case gid of Some g \<Rightarrow> g | None \<Rightarrow> '''')));
          ctx = dict_set ctx ''date_str'' (Cell (VStr date_str));
          ctx = dict_set ctx ''current_index'' (Cell (VInt idx));
          ctx = dict_set ctx ''total'' (Cell (VInt total_n));
          ctx = dict_set ctx ''has_prev'' (Cell (VBool (idx > 0)));
          ctx = dict_set ctx ''has_next'' (Cell (VBool (idx < total_n - 1)))
      in ctx)"

definition preview :: "env \<Rightarrow> request \<Rightarrow> response" where
  "preview e req =
     (let idx_str = strip (get_or (req_args req) ''idx'' ''0'')
      in case fetch_rows e (req_args req) ''Missing sheet or date for preview.'' of
           Inl resp \<Rightarrow> resp
         | Inr (sheet_input, gid, date_str, target_date, df_date) \<Rightarrow>
             (let idx = (case int_of_str e idx_str of Some i \<Rightarrow> i | None \<Rightarrow> 0)
              in Render_preview (preview_context e sheet_input gid date_str idx df_date)))"

section \<open>A worked example\<close>

text \<open>
  A small sheet of four inspection records, a fifth record with the site name of the
  second, and an environment in which one Drive file is a PNG image, one is served as an
  image but is not decodable, one is served as a web page and every other download
  answers 404.  The document library is replaced by one whose image constructor raises
  nothing and whose rendering returns the text of the observation field as the bytes of
  the document, or raises \<open>UnrecognizedImageError\<close> when the image list holds bytes other
  than those of the PNG image.
\<close>

definition example_date :: date where
  "example_date = \<lparr>year = 2024, month = 3, day = 5\<rparr>"

definition example_png :: bytes where
  "example_png = [137, 80, 78, 71]"

definition example_env :: env where
  "example_env =
     \<lparr>float_str = (\<lambda>f. ''1.5''),
      timestamp_str = (\<lambda>ts. isoformat (on_date ts)),
      to_datetime = (\<lambda>v. None),
      series_to_datetime =
        (\<lambda>col v.
           case v of
             VStr s \<Rightarrow>
               if s = ''2024-03-05 22:15:00'' then
                 Some \<lparr>on_date = \<lparr>year = 2024, month = 3, day = 5\<rparr>,
                       hour = 22, minute = 15, second = 0, nanosecond = 0\<rparr>
               else if s = ''2024-03-05'' then
                 Some \<lparr>on_date = \<lparr>year = 2024, month = 3, day = 5\<rparr>,
                       hour = 0, minute = 0, second = 0, nanosecond = 0\<rparr>
               else if s = ''2024-03-06'' then
                 Some \<lparr>on_date = \<lparr>year = 2024, month = 3, day = 6\<rparr>,
                       hour = 0, minute = 0, second = 0, nanosecond = 0\<rparr>
               else None
           | _ \<Rightarrow> None),
      requests_get =
        (\<lambda>url.
           if url = ''https://drive.google.com/uc?export=download&id=PNG1''
           then Http_response 200 (Some ''image/png'') [137, 80, 78, 71]
           else if url = ''https://drive.google.com/uc?export=download&id=BAD1''
           then Http_response 200 (Some ''image/jpeg'') [0]
           else if url = ''https://drive.google.com/uc?export=download&id=HTML''
           then Http_response 200 (Some ''text/html'') [60]
           else Http_response 404 None []),
      b64encode = (\<lambda>b. if b = [137, 80, 78, 71] then ''iVBORw=='' else ''AA==''),
      inline_image_rejects = (\<lambda>b. False),
      docx_render =
        (\<lambda>tpl ctx.
           if (case map_of ctx ''images'' of
                 Some (Images ims) \<Rightarrow>
                   list_all (\<lambda>im. case im of InlineImage t b w \<Rightarrow> b = [137, 80, 78, 71]) ims
               | _ \<Rightarrow> True)
           then Inr (case map_of ctx ''observation'' of
                       Some (Cell (VStr s)) \<Rightarrow> map of_char s
                     | _ \<Rightarrow> [])
           else Inl UnrecognizedImageError),
      path_exists = (\<lambda>p. p = ''template.docx''),
      read_csv = (\<lambda>url. Inl ''HTTP Error 404: Not Found''),
      strptime = (\<lambda>s. if s = ''2024-03-05'' then Some \<lparr>year = 2024, month = 3, day = 5\<rparr> else None),
      int_of_str =
        (\<lambda>s. if s = ''0'' then Some 0 else if s = ''7'' then Some 7
             else if s = ''-3'' then Some (- 3) else None)\<rparr>"

definition row_a :: row where
  "row_a =
     [''Site Name'' \<mapsto> VStr ''N - 12 - Main Gate'',
      ''Date'' \<mapsto> VStr ''2024-03-05 22:15:00'',
      ''Observation'' \<mapsto> VStr ''ok'',
      ''Images'' \<mapsto>
        VStr ''https://drive.google.com/open?id=PNG1, https://drive.google.com/file/d/BAD1/view, https://drive.google.com/open?id=HTML,https://example.com/x.png'']"

definition row_b :: row where
  "row_b =
     [''Site Name'' \<mapsto> VStr ''S-3-Main Gate'',
      ''Date'' \<mapsto> VStr ''2024-03-05'',
      ''Observation'' \<mapsto> VStr ''late'',
      ''Images'' \<mapsto> VNaN]"

definition row_c :: row where
  "row_c =
     [''Site Name'' \<mapsto> VStr ''Depot'',
      ''Date'' \<mapsto> VStr ''2024-03-06'',
      ''Observation'' \<mapsto> VNaN,
      ''Images'' \<mapsto> VNaN]"

definition row_d :: row where
  "row_d =
     [''Site Name'' \<mapsto> VNaN,
      ''Date'' \<mapsto> VStr ''n/a'',
      ''Observation'' \<mapsto> VNaN,
      ''Images'' \<mapsto> VNaN]"

definition row_e :: row where
  "row_e =
     [''Site Name'' \<mapsto> VStr ''N-7-Main Gate'',
      ''Date'' \<mapsto> VStr ''2024-03-05'',
      ''Observation'' \<mapsto> VStr ''gate open'',
      ''Images'' \<mapsto> VNaN]"

definition example_df :: dataframe where
  "example_df =
     \<lparr>df_columns = [''Site Name'', ''Date'', ''Observation'', ''Images''],
      df_rows = [row_a, row_b, row_c, row_d]\<rparr>"

definition example_sheet_env :: env where
  \<comment> \<open>the example environment once the sheet is reachable\<close>
  "example_sheet_env = example_env\<lparr>read_csv := (\<lambda>url. Inr example_df)\<rparr>"

definition example_params :: "string \<rightharpoonup> string" where
  "example_params = [''sheet_input'' \<mapsto> ''sheet1'', ''date'' \<mapsto> '' 2024-03-05'']"

definition example_request :: request where
  \<comment> \<open>a download request without an uploaded template, and a preview request for index 7\<close>
  "example_request =
     \<lparr>req_method = ''POST'',
      req_form = example_params(''action'' \<mapsto> ''download_zip''),
      req_args = example_params(''idx'' \<mapsto> ''7''),
      req_files = Map.empty\<rparr>"

definition example_bare_env :: env where
  \<comment> \<open>the same environment without the default template file\<close>
  "example_bare_env = example_sheet_env\<lparr>path_exists := (\<lambda>p. False)\<rparr>"

definition example_filtered :: "row list" where
  \<comment> \<open>the two records of 5 March 2024, with their parsed dates\<close>
  "example_filtered =
     [row_a(''Date_parsed'' \<mapsto>
        VTimestamp \<lparr>on_date = \<lparr>year = 2024, month = 3, day = 5\<rparr>,
                    hour = 22, minute = 15, second = 0, nanosecond = 0\<rparr>),
      row_b(''Date_parsed'' \<mapsto>
        VTimestamp \<lparr>on_date = \<lparr>year = 2024, month = 3, day = 5\<rparr>,
                    hour = 0, minute = 0, second = 0, nanosecond = 0\<rparr>)]"

section \<open>Properties of the string helpers\<close>

lemma split_not_Nil: "split sep s \<noteq> []"
  by (induction s) (auto split: list.splits)

lemma split_max_not_Nil: "split_max sep n s \<noteq> []"
  by (induction sep n s rule: split_max.induct) (auto split: list.splits)

lemma split_max_no_sep: "sep \<notin> set s \<Longrightarrow> split_max sep n s = [s]"
  by (induction sep n s rule: split_max.induct) auto

lemma split_max_at_sep:
  "sep \<notin> set a \<Longrightarrow> split_max sep (Suc n) (a @ sep # rest) = a # split_max sep n rest"
  by (induction a) auto

lemma length_split_max:
  "length (split_max sep n s) = Suc (min n (count_list s sep))"
proof (induction sep n s rule: split_max.induct)
  case (3 sep n x xs)
  then show ?case
    using split_max_not_Nil [of sep "Suc n" xs]
    by (cases "split_max sep (Suc n) xs") auto
qed auto

lemma two_seps_decompose:
  assumes two: "2 \<le> count_list s sep"
  shows "\<exists>a b c. s = a @ sep # b @ sep # c \<and> sep \<notin> set a \<and> sep \<notin> set b"
proof -
  from two have "sep \<in> set s"
    by (metis count_list_0_iff not_numeral_le_zero)
  then obtain a r where s: "s = a @ sep # r" and a: "sep \<notin> set a"
    by (meson split_list_first)
  from two s a have "1 \<le> count_list r sep"
    by (simp add: count_list_0_iff)
  then have "sep \<in> set r"
    by (metis count_list_0_iff not_one_le_zero)
  then obtain b c where r: "r = b @ sep # c" and b: "sep \<notin> set b"
    by (meson split_list_first)
  from s r a b show ?thesis by blast
qed

lemma parse_three_parts:
  assumes a: "CHR ''-'' \<notin> set a" and b: "CHR ''-'' \<notin> set b"
  shows "parse_site_name (VStr (a @ CHR ''-'' # b @ CHR ''-'' # c)) = (strip a, strip b, strip c)"
proof -
  have "split_max CHR ''-'' (Suc (Suc 0)) (a @ CHR ''-'' # b @ CHR ''-'' # c) = [a, b, c]"
    using a b by (simp add: split_max_at_sep)
  then show ?thesis
    by (simp add: parse_site_name_def numeral_2_eq_2)
qed

lemma parse_few_parts:
  assumes "count_list s CHR ''-'' < 2"
  shows "parse_site_name (VStr s) = ('''', '''', strip s)"
proof -
  from assms have "length (split_max CHR ''-'' 2 s) < 3"
    by (simp add: length_split_max)
  then show ?thesis
    by (simp add: parse_site_name_def)
qed

section \<open>The site name parser (C4)\<close>

text \<open>
  C4, as the claim states it, fails on a site name written with blanks around the
  hyphens: the pieces between the hyphens are \<open>"N "\<close>, \<open>" 12 "\<close> and \<open>" Main Gate"\<close>,
  and the parser returns none of them as it stands.
\<close>

theorem parse_site_name_counterexample:
  "parse_site_name (VStr (''N '' @ ''-'' @ '' 12 '' @ ''-'' @ '' Main Gate''))
     \<noteq> (''N '', '' 12 '', '' Main Gate'')"
  by code_simp

text \<open>
  C4, as amended.  The parser is a total function on every cell.  A string with at least
  two hyphens is cut at its first two hyphens, and the zone, the unit code and the site
  name are the three pieces, each with its surrounding whitespace removed; hyphens in the
  third piece are kept.  A string with fewer than two hyphens gives an empty zone and unit
  code and the trimmed input as site name.  Any cell that is not a string gives three
  empty strings.
\<close>

theorem parse_site_name_spec:
  "(2 \<le> count_list s CHR ''-'' \<longrightarrow>
      (\<exists>a b c. s = a @ CHR ''-'' # b @ CHR ''-'' # c \<and>
         CHR ''-'' \<notin> set a \<and> CHR ''-'' \<notin> set b)) \<and>
   (CHR ''-'' \<notin> set a \<and> CHR ''-'' \<notin> set b \<longrightarrow>
      parse_site_name (VStr (a @ CHR ''-'' # b @ CHR ''-'' # c)) = (strip a, strip b, strip c)) \<and>
   (count_list s CHR ''-'' < 2 \<longrightarrow> parse_site_name (VStr s) = ('''', '''', strip s)) \<and>
   ((\<forall>t. v \<noteq> VStr t) \<longrightarrow> parse_site_name v = ('''', '''', ''''))"
proof (intro conjI impI)
  assume "2 \<le> count_list s CHR ''-''"
  then show "\<exists>a b c. s = a @ CHR ''-'' # b @ CHR ''-'' # c \<and>
      CHR ''-'' \<notin> set a \<and> CHR ''-'' \<notin> set b"
    by (rule two_seps_decompose)
next
  assume "CHR ''-'' \<notin> set a \<and> CHR ''-'' \<notin> set b"
  then show "parse_site_name (VStr (a @ CHR ''-'' # b @ CHR ''-'' # c)) = (strip a, strip b, strip c)"
    by (simp add: parse_three_parts)
next
  assume "count_list s CHR ''-'' < 2"
  then show "parse_site_name (VStr s) = ('''', '''', strip s)"
    by (rule parse_few_parts)
next
  assume "\<forall>t. v \<noteq> VStr t"
  then show "parse_site_name v = ('''', '''', '''')"
    by (cases v) (simp_all add: parse_site_name_def)
qed

lemma strip_examples:
  "strip ''N '' = ''N''" "strip '' 12 '' = ''12''" "strip '' Main Gate-2'' = ''Main Gate-2''"
  "strip '' Depot '' = ''Depot''"
  by code_simp+

theorem parse_site_name_spec_witness:
  "2 \<le> count_list ''N - 12 - Main Gate-2'' CHR ''-'' \<and>
   CHR ''-'' \<notin> set ''N '' \<and> CHR ''-'' \<notin> set '' 12 '' \<and>
   parse_site_name (VStr ''N - 12 - Main Gate-2'') = (''N'', ''12'', ''Main Gate-2'') \<and>
   count_list '' Depot '' CHR ''-'' < 2 \<and>
   parse_site_name (VStr '' Depot '') = ('''', '''', ''Depot'') \<and>
   (\<forall>t. VNaN \<noteq> VStr t) \<and>
   parse_site_name VNaN = ('''', '''', '''')"
  using parse_site_name_spec [of "'' Depot ''" "''N ''" "'' 12 ''" "'' Main Gate-2''" VNaN]
  by (simp add: strip_examples)

section \<open>The row context builder (C5, C6)\<close>

lemma normalize_value_VStr: "normalize_value (VStr s) = VStr s"
  by (simp add: normalize_value_def isna_def is_none_def)

lemma normalize_value_null: "isna v \<Longrightarrow> normalize_value v = VStr ''''"
  by (simp add: normalize_value_def)

lemma is_none_isna: "is_none v \<Longrightarrow> isna v"
  by (cases v) (simp_all add: is_none_def isna_def)

lemma normalize_missing_or_null:
  "missing_or_null r col \<Longrightarrow> normalize_value (row_get r col (VStr '''')) = VStr ''''"
  by (auto simp add: missing_or_null_def row_get_def normalize_value_VStr normalize_value_null
      split: option.splits)

lemma build_context_keys:
  "map fst (build_context_from_row e r) =
     [''zone'', ''unit_code'', ''site_name'', ''date'', ''time'', ''attendance_register'',
      ''handling_register'', ''material_register'', ''grooming'', ''alertness'',
      ''post_discipline'', ''overall_rating'', ''observation'', ''inspected_by'']"
  by (simp add: build_context_from_row_def Let_def case_prod_beta)

lemma build_context_copied:
  "map_of (build_context_from_row e r) ''time'' =
     Some (normalize_value (row_get r ''Time'' (VStr '''')))"
  "map_of (build_context_from_row e r) ''attendance_register'' =
     Some (normalize_value (row_get r ''Documentation Check [Attendance Register]'' (VStr '''')))"
  "map_of (build_context_from_row e r) ''handling_register'' =
     Some (normalize_value
       (row_get r ''Documentation Check [Handling / Taking Over Register]'' (VStr '''')))"
  "map_of (build_context_from_row e r) ''material_register'' =
     Some (normalize_value (row_get r ''Documentation Check [Visitor Log Register]'' (VStr '''')))"
  "map_of (build_context_from_row e r) ''grooming'' =
     Some (normalize_value (row_get r ''Performance Check [Grooming]'' (VStr '''')))"
  "map_of (build_context_from_row e r) ''alertness'' =
     Some (normalize_value (row_get r ''Performance Check [Alertness]'' (VStr '''')))"
  "map_of (build_context_from_row e r) ''post_discipline'' =
     Some (normalize_value (row_get r ''Performance Check [Post Discipline]'' (VStr '''')))"
  "map_of (build_context_from_row e r) ''overall_rating'' =
     Some (normalize_value (row_get r ''Performance Check [Overall Rating]'' (VStr '''')))"
  "map_of (build_context_from_row e r) ''observation'' =
     Some (normalize_value (row_get r ''Observation'' (VStr '''')))"
  "map_of (build_context_from_row e r) ''inspected_by'' =
     Some (normalize_value (row_get r ''Inspected By'' (VStr '''')))"
  by (simp_all add: build_context_from_row_def Let_def case_prod_beta)

text \<open>
  The ten fields that are copied from one column each are the empty string whenever that
  column is missing from the row or holds a null marker.
\<close>

lemma build_context_copied_default:
  "missing_or_null r ''Time'' \<Longrightarrow>
     map_of (build_context_from_row e r) ''time'' = Some (VStr '''')"
  "missing_or_null r ''Documentation Check [Attendance Register]'' \<Longrightarrow>
     map_of (build_context_from_row e r) ''attendance_register'' = Some (VStr '''')"
  "missing_or_null r ''Documentation Check [Handling / Taking Over Register]'' \<Longrightarrow>
     map_of (build_context_from_row e r) ''handling_register'' = Some (VStr '''')"
  "missing_or_null r ''Documentation Check [Visitor Log Register]'' \<Longrightarrow>
     map_of (build_context_from_row e r) ''material_register'' = Some (VStr '''')"
  "missing_or_null r ''Performance Check [Grooming]'' \<Longrightarrow>
     map_of (build_context_from_row e r) ''grooming'' = Some (VStr '''')"
  "missing_or_null r ''Performance Check [Alertness]'' \<Longrightarrow>
     map_of (build_context_from_row e r) ''alertness'' = Some (VStr '''')"
  "missing_or_null r ''Performance Check [Post Discipline]'' \<Longrightarrow>
     map_of (build_context_from_row e r) ''post_discipline'' = Some (VStr '''')"
  "missing_or_null r ''Performance Check [Overall Rating]'' \<Longrightarrow>
     map_of (build_context_from_row e r) ''overall_rating'' = Some (VStr '''')"
  "missing_or_null r ''Observation'' \<Longrightarrow>
     map_of (build_context_from_row e r) ''observation'' = Some (VStr '''')"
  "missing_or_null r ''Inspected By'' \<Longrightarrow>
     map_of (build_context_from_row e r) ''inspected_by'' = Some (VStr '''')"
  by (simp_all only: build_context_copied normalize_missing_or_null)

lemma parse_site_name_null:
  assumes "missing_or_null r ''Site Name''"
  shows "parse_site_name (row_get r ''Site Name'' (VStr '''')) = ('''', '''', '''')"
proof (cases "r ''Site Name''")
  case None
  have "strip '''' = ''''"
    by (simp add: strip_def lstrip_def rstrip_def)
  with None show ?thesis
    by (simp add: row_get_def parse_site_name_def numeral_2_eq_2)
next
  case (Some v)
  with assms have "isna v"
    by (simp add: missing_or_null_def)
  with Some show ?thesis
    by (cases v) (simp_all add: row_get_def parse_site_name_def isna_def)
qed

text \<open>
  The three fields taken from the site name are the empty string whenever the
  \<open>Site Name\<close> column is missing or null.
\<close>

lemma build_context_site_default:
  assumes "missing_or_null r ''Site Name''"
  shows "map_of (build_context_from_row e r) ''zone'' = Some (VStr '''') \<and>
         map_of (build_context_from_row e r) ''unit_code'' = Some (VStr '''') \<and>
         map_of (build_context_from_row e r) ''site_name'' = Some (VStr '''')"
proof -
  have "normalize_value (py_or e (VStr '''') (row_get r ''Site Name'' (VStr ''''))) = VStr ''''"
    using assms
    by (auto simp add: missing_or_null_def row_get_def py_or_def truthy_def
        normalize_value_VStr normalize_value_null split: option.splits)
  with parse_site_name_null [OF assms] show ?thesis
    by (simp add: build_context_from_row_def Let_def case_prod_beta normalize_value_VStr)
qed

lemma build_context_date:
  "map_of (build_context_from_row e r) ''date'' =
     Some (VStr
       (let parsed_date = row_get r ''Date_parsed'' VNone;
            raw_date = py_str e (py_or e (row_get r ''Date'' (VStr '''')) (VStr ''''))
        in if \<not> is_none parsed_date \<and> \<not> isna parsed_date then
             (case pd_to_datetime e parsed_date of
                Some ts \<Rightarrow> strftime_dmy ts
              | None \<Rightarrow> raw_date)
           else raw_date))"
  by (simp add: build_context_from_row_def Let_def normalize_value_VStr case_prod_beta)

lemma raw_date_cases:
  "py_str e (py_or e (row_get r ''Date'' (VStr '''')) (VStr '''')) =
     (case r ''Date'' of None \<Rightarrow> '''' | Some d \<Rightarrow> if truthy e d then py_str e d else '''')"
  by (simp add: py_or_def row_get_def py_str_def truthy_def split: option.splits)

text \<open>
  C5, as the claim states it, fails on a row without a pre-parsed date whose \<open>Date\<close> cell
  is the number 0: the text of the raw value is \<open>"0"\<close>, and the field is empty.
\<close>

theorem date_field_counterexample:
  "map_of (build_context_from_row example_env [''Date'' \<mapsto> VInt 0]) ''date''
     \<noteq> Some (VStr (py_str example_env (VInt 0)))"
  by code_simp

text \<open>
  C5, as amended.  When the row holds a pre-parsed date that is not null and that
  \<open>pd.to_datetime\<close> accepts (a timestamp always is), the \<open>date\<close> field is that date
  formatted as \<open>DD/MM/YYYY\<close>.  When the row has no pre-parsed date, or a null one, or one
  that cannot be converted, the field is the text of the raw \<open>Date\<close> value if that value
  is truthy, and the empty string if the \<open>Date\<close> column is absent or its value is falsy
  (empty string, 0, 0.0, \<open>False\<close>, \<open>None\<close>).
\<close>

theorem date_field_spec:
  "(r ''Date_parsed'' = Some v \<and> \<not> isna v \<and> pd_to_datetime e v = Some ts \<longrightarrow>
      map_of (build_context_from_row e r) ''date'' = Some (VStr (strftime_dmy ts))) \<and>
   (r ''Date_parsed'' = Some (VTimestamp ts) \<longrightarrow>
      map_of (build_context_from_row e r) ''date'' = Some (VStr (strftime_dmy ts))) \<and>
   (r ''Date_parsed'' = None \<or>
    (\<exists>w. r ''Date_parsed'' = Some w \<and> (isna w \<or> pd_to_datetime e w = None)) \<longrightarrow>
      map_of (build_context_from_row e r) ''date'' =
        Some (VStr (case r ''Date'' of
                      None \<Rightarrow> ''''
                    | Some d \<Rightarrow> if truthy e d then py_str e d else '''')))"
proof (intro conjI impI)
  assume "r ''Date_parsed'' = Some v \<and> \<not> isna v \<and> pd_to_datetime e v = Some ts"
  then show "map_of (build_context_from_row e r) ''date'' = Some (VStr (strftime_dmy ts))"
    using is_none_isna [of v] by (auto simp add: build_context_date row_get_def Let_def)
next
  assume "r ''Date_parsed'' = Some (VTimestamp ts)"
  then show "map_of (build_context_from_row e r) ''date'' = Some (VStr (strftime_dmy ts))"
    by (simp add: build_context_date row_get_def is_none_def isna_def pd_to_datetime_def)
next
  assume h: "r ''Date_parsed'' = None \<or>
    (\<exists>w. r ''Date_parsed'' = Some w \<and> (isna w \<or> pd_to_datetime e w = None))"
  have "map_of (build_context_from_row e r) ''date'' =
      Some (VStr (py_str e (py_or e (row_get r ''Date'' (VStr '''')) (VStr ''''))))"
    using h by (auto simp add: build_context_date row_get_def is_none_def Let_def)
  then show "map_of (build_context_from_row e r) ''date'' =
        Some (VStr (case r ''Date'' of
                      None \<Rightarrow> ''''
                    | Some d \<Rightarrow> if truthy e d then py_str e d else ''''))"
    by (simp only: raw_date_cases)
qed

lemma strftime_example:
  "strftime_dmy \<lparr>on_date = \<lparr>year = 2024, month = 3, day = 5\<rparr>,
                   hour = 22, minute = 15, second = 0, nanosecond = 0\<rparr> = ''05/03/2024''"
  by code_simp

theorem date_field_spec_witness:
  "map_of (build_context_from_row example_env
            (row_a(''Date_parsed'' \<mapsto>
               VTimestamp \<lparr>on_date = \<lparr>year = 2024, month = 3, day = 5\<rparr>,
                           hour = 22, minute = 15, second = 0, nanosecond = 0\<rparr>)))
     ''date'' = Some (VStr ''05/03/2024'') \<and>
   map_of (build_context_from_row example_env (row_a(''Date_parsed'' \<mapsto> VNaT)))
     ''date'' = Some (VStr ''2024-03-05 22:15:00'') \<and>
   map_of (build_context_from_row example_env Map.empty) ''date'' = Some (VStr '''')"
  using
    date_field_spec [of "row_a(''Date_parsed'' \<mapsto>
               VTimestamp \<lparr>on_date = \<lparr>year = 2024, month = 3, day = 5\<rparr>,
                           hour = 22, minute = 15, second = 0, nanosecond = 0\<rparr>)"
        "VTimestamp \<lparr>on_date = \<lparr>year = 2024, month = 3, day = 5\<rparr>,
                           hour = 22, minute = 15, second = 0, nanosecond = 0\<rparr>"
        example_env
        "\<lparr>on_date = \<lparr>year = 2024, month = 3, day = 5\<rparr>,
                           hour = 22, minute = 15, second = 0, nanosecond = 0\<rparr>"]
    date_field_spec [of "row_a(''Date_parsed'' \<mapsto> VNaT)" VNaT example_env undefined]
    date_field_spec [of Map.empty VNaT example_env undefined]
  by (simp add: strftime_example isna_def pd_to_datetime_def row_a_def truthy_def py_str_def)


section \<open>The remote image fetcher (C7)\<close>

lemma not_id_char_slash: "\<not> id_char CHR ''/''"
  by (simp add: id_char_def)

lemma startswith_append: "startswith (p @ s) p"
  by (simp add: startswith_def)

lemma startswith_decompose: "startswith s p \<Longrightarrow> s = p @ drop (length p) s"
  by (metis append_take_drop_id startswith_def)

lemma re_search_Some:
  "re_search m s = Some g \<Longrightarrow> \<exists>pre post. s = pre @ post \<and> m post = Some g"
proof (induction s)
  case Nil
  then show ?case by simp
next
  case (Cons c cs)
  show ?case
  proof (cases "m (c # cs)")
    case None
    with Cons.prems have "re_search m cs = Some g" by simp
    with Cons.IH obtain pre post where "cs = pre @ post" "m post = Some g" by blast
    then have "c # cs = (c # pre) @ post \<and> m post = Some g" by simp
    then show ?thesis by blast
  next
    case (Some h)
    with Cons.prems have "c # cs = [] @ (c # cs) \<and> m (c # cs) = Some g" by simp
    then show ?thesis by blast
  qed
qed

lemma re_search_found:
  "m post \<noteq> None \<Longrightarrow> re_search m (pre @ post) \<noteq> None"
proof (induction pre)
  case Nil
  then show ?case by (cases post) auto
next
  case (Cons c pre)
  then show ?case by (cases "m (c # pre @ post)") auto
qed

lemma match_here_Some:
  assumes "match_here lit slash s = Some g"
  shows "\<exists>post. s = lit @ g @ (if slash then ''/'' else []) @ post \<and> g \<noteq> [] \<and> list_all id_char g"
proof -
  let ?t = "drop (length lit) s"
  from assms have sw: "startswith s lit"
    by (simp add: match_here_def split: if_splits)
  from assms sw have g: "g = takeWhile id_char ?t" and ne: "g \<noteq> []"
    and sl: "slash \<Longrightarrow> startswith (dropWhile id_char ?t) ''/''"
    by (auto simp add: match_here_def Let_def split: if_splits)
  have s: "s = lit @ g @ dropWhile id_char ?t"
    using startswith_decompose [OF sw] g by simp
  have all: "list_all id_char g"
    unfolding g by (simp add: list_all_iff) (meson set_takeWhileD)
  show ?thesis
  proof (cases slash)
    case True
    from sl [OF True] have "dropWhile id_char ?t = ''/'' @ drop 1 (dropWhile id_char ?t)"
      using startswith_decompose by fastforce
    with s have "s = lit @ g @ ''/'' @ drop 1 (dropWhile id_char ?t)" by simp
    with True ne all show ?thesis by auto
  next
    case False
    with s ne all show ?thesis by auto
  qed
qed

lemma match_here_found:
  assumes "g \<noteq> []" "list_all id_char g"
  shows "match_here lit slash (lit @ g @ (if slash then ''/'' else []) @ post) \<noteq> None"
proof -
  from assms(2) have a: "\<forall>c\<in>set g. id_char c"
    by (simp add: list_all_iff)
  have tw: "takeWhile id_char (g @ r) = g @ takeWhile id_char r" for r
    using a by simp
  have dw: "dropWhile id_char (g @ r) = dropWhile id_char r" for r
    using a by simp
  show ?thesis
    using assms(1)
    by (simp add: match_here_def Let_def startswith_append tw dw not_id_char_slash startswith_def)
qed

lemma re_search_pattern:
  "(re_search (match_here lit slash) s \<noteq> None) = pattern_occurs lit slash s"
proof
  assume "re_search (match_here lit slash) s \<noteq> None"
  then obtain g where "re_search (match_here lit slash) s = Some g" by blast
  from re_search_Some [OF this] obtain pre post
    where s: "s = pre @ post" and m: "match_here lit slash post = Some g" by blast
  from match_here_Some [OF m] s show "pattern_occurs lit slash s"
    unfolding pattern_occurs_def by blast
next
  assume "pattern_occurs lit slash s"
  then obtain pre g post where s: "s = pre @ lit @ g @ (if slash then ''/'' else []) @ post"
      and g: "g \<noteq> []" "list_all id_char g"
    unfolding pattern_occurs_def by blast
  have "match_here lit slash (lit @ g @ (if slash then ''/'' else []) @ post) \<noteq> None"
    using g by (rule match_here_found)
  then have "re_search (match_here lit slash)
      (pre @ lit @ g @ (if slash then ''/'' else []) @ post) \<noteq> None"
    by (rule re_search_found)
  with s show "re_search (match_here lit slash) s \<noteq> None" by simp
qed

lemma match_here_nonempty: "match_here lit slash s = Some g \<Longrightarrow> g \<noteq> []"
  by (simp add: match_here_def Let_def split: if_splits)

lemma re_search_nonempty: "re_search (match_here lit slash) s = Some g \<Longrightarrow> g \<noteq> []"
  using re_search_Some match_here_nonempty by blast

lemma extract_drive_file_id_cases:
  "extract_drive_file_id url =
     (case re_search (match_here ''id='' False) url of
        Some g \<Rightarrow> g
      | None \<Rightarrow>
          (case re_search (match_here ''/d/'' True) url of
             Some g \<Rightarrow> g
           | None \<Rightarrow> ''''))"
  by (simp add: extract_drive_file_id_def split: option.splits)

lemma extract_drive_file_id_empty:
  "(extract_drive_file_id url = []) =
     (re_search (match_here ''id='' False) url = None \<and>
      re_search (match_here ''/d/'' True) url = None)"
  using re_search_nonempty [of "''id=''" False url] re_search_nonempty [of "''/d/''" True url]
  by (auto simp add: extract_drive_file_id_cases split: option.splits)

text \<open>
  C7.  The fetcher returns the bytes \<open>b\<close> exactly when a file identifier is extracted
  from the link, the download answers with status 200 and a \<open>Content-Type\<close> header that
  begins with \<open>image/\<close>, and \<open>b\<close> is the body of that answer.  An identifier is
  extracted exactly when \<open>id=<id>\<close> or \<open>/d/<id>/\<close> occurs in the link, and the match of
  \<open>id=<id>\<close> is taken when there is one, else that of \<open>/d/<id>/\<close>.  The result is an
  optional value: in every other case, a failed request included, it is \<open>None\<close>, and no
  error reaches the caller.
\<close>

theorem download_drive_image_spec:
  "(download_drive_image e url = Some b) =
     (\<exists>file_id content_type.
        file_id \<noteq> [] \<and> extract_drive_file_id url = file_id \<and>
        requests_get e (''https://drive.google.com/uc?export=download&id='' @ file_id) =
          Http_response 200 (Some content_type) b \<and>
        startswith content_type ''image/'') \<and>
   (extract_drive_file_id url \<noteq> []) =
     (pattern_occurs ''id='' False url \<or> pattern_occurs ''/d/'' True url) \<and>
   (re_search (match_here ''id='' False) url = Some g \<longrightarrow> extract_drive_file_id url = g) \<and>
   (re_search (match_here ''id='' False) url = None \<longrightarrow>
    re_search (match_here ''/d/'' True) url = Some g \<longrightarrow> extract_drive_file_id url = g)"
proof (intro conjI)
  show "(download_drive_image e url = Some b) =
     (\<exists>file_id content_type.
        file_id \<noteq> [] \<and> extract_drive_file_id url = file_id \<and>
        requests_get e (''https://drive.google.com/uc?export=download&id='' @ file_id) =
          Http_response 200 (Some content_type) b \<and>
        startswith content_type ''image/'')"
  proof (cases "requests_get e (''https://drive.google.com/uc?export=download&id='' @
      extract_drive_file_id url)")
    case Request_failed
    then show ?thesis
      by (simp add: download_drive_image_def Let_def)
  next
    case (Http_response status_code header body)
    have empty: "\<not> startswith '''' ''image/''"
      by (simp add: startswith_def)
    from Http_response empty show ?thesis
      by (cases header) (auto simp add: download_drive_image_def Let_def)
  qed
  show "(extract_drive_file_id url \<noteq> []) =
     (pattern_occurs ''id='' False url \<or> pattern_occurs ''/d/'' True url)"
    using re_search_pattern [of "''id=''" False url] re_search_pattern [of "''/d/''" True url]
    by (simp only: extract_drive_file_id_empty) blast
  show "re_search (match_here ''id='' False) url = Some g \<longrightarrow> extract_drive_file_id url = g"
    by (simp add: extract_drive_file_id_cases)
  show "re_search (match_here ''id='' False) url = None \<longrightarrow>
    re_search (match_here ''/d/'' True) url = Some g \<longrightarrow> extract_drive_file_id url = g"
    by (simp add: extract_drive_file_id_cases)
qed

lemma download_examples:
  "download_drive_image example_env ''https://drive.google.com/open?id=PNG1'' = Some example_png"
  "download_drive_image example_env ''https://drive.google.com/file/d/BAD1/view'' = Some [0]"
  "download_drive_image example_env ''https://drive.google.com/open?id=HTML'' = None"
  "download_drive_image example_env ''https://drive.google.com/open?id=GONE'' = None"
  "download_drive_image example_env ''https://example.com/x.png'' = None"
  "extract_drive_file_id ''https://drive.google.com/open?id=PNG1'' = ''PNG1''"
  "extract_drive_file_id ''https://drive.google.com/file/d/BAD1/view'' = ''BAD1''"
  "extract_drive_file_id ''https://drive.google.com/file/d/BAD1/view?id=PNG1'' = ''PNG1''"
  "extract_drive_file_id ''https://example.com/x.png'' = ''''"
  "re_search (match_here ''id='' False) ''https://drive.google.com/file/d/BAD1/view?id=PNG1''
     = Some ''PNG1''"
  "re_search (match_here ''id='' False) ''https://drive.google.com/file/d/BAD1/view'' = None"
  "re_search (match_here ''/d/'' True) ''https://drive.google.com/file/d/BAD1/view''
     = Some ''BAD1''"
  by code_simp+

theorem download_drive_image_spec_witness:
  "download_drive_image example_env ''https://drive.google.com/open?id=PNG1'' = Some example_png \<and>
   (\<exists>content_type.
      requests_get example_env ''https://drive.google.com/uc?export=download&id=PNG1'' =
        Http_response 200 (Some content_type) example_png \<and>
      startswith content_type ''image/'') \<and>
   pattern_occurs ''/d/'' True ''https://drive.google.com/file/d/BAD1/view'' \<and>
   extract_drive_file_id ''https://drive.google.com/file/d/BAD1/view?id=PNG1'' = ''PNG1'' \<and>
   extract_drive_file_id ''https://drive.google.com/file/d/BAD1/view'' = ''BAD1''"
proof -
  have i: "\<not> pattern_occurs ''id='' False ''https://drive.google.com/file/d/BAD1/view''"
    using re_search_pattern [of "''id=''" False "''https://drive.google.com/file/d/BAD1/view''"]
    unfolding download_examples by simp
  show ?thesis
    using
      download_drive_image_spec [of example_env "''https://drive.google.com/open?id=PNG1''"
        example_png undefined]
      download_drive_image_spec [of example_env "''https://drive.google.com/file/d/BAD1/view''"
        undefined "''BAD1''"]
      download_drive_image_spec [of example_env
        "''https://drive.google.com/file/d/BAD1/view?id=PNG1''" undefined "''PNG1''"]
      i
    unfolding download_examples by (simp add: example_env_def example_png_def startswith_def)
qed

section \<open>Embedded images of a rendered row (C2)\<close>

lemma map_of_dict_set:
  "map_of (dict_set kvs k v) k' = (if k' = k then Some v else map_of kvs k')"
  by (induction kvs k v rule: dict_set.induct) auto

lemma length_concat_le:
  "(\<And>x. length (f x) \<le> 1) \<Longrightarrow> length (concat (map f xs)) \<le> length xs"
proof (induction xs)
  case Nil
  then show ?case by simp
next
  case (Cons x xs)
  have "length (f x) \<le> 1" by (rule Cons.prems)
  moreover have "length (concat (map f xs)) \<le> length xs"
    by (rule Cons.IH) (rule Cons.prems)
  ultimately show ?case by simp
qed

lemma image_links_concat:
  "image_links s = concat (map (\<lambda>u. if strip u \<noteq> [] then [strip u] else []) (split CHR '','' s))"
  by (simp add: image_links_def)

lemma length_image_links: "length (image_links s) \<le> length (split CHR '','' s)"
  unfolding image_links_concat by (rule length_concat_le) simp

lemma image_links_empty: "image_links [] = []"
  by (simp add: image_links_def strip_def lstrip_def rstrip_def)

lemma inline_images_loop_concat:
  "inline_images_loop e tpl acc urls = acc @ concat (map (embed_link e tpl) urls)"
proof (induction urls arbitrary: acc)
  case Nil
  then show ?case by simp
next
  case (Cons url urls)
  then show ?case
    by (simp add: embed_link_def new_inline_image_def split: option.splits)
qed

lemma row_inline_images_concat:
  "row_inline_images e tpl r = concat (map (embed_link e tpl) (image_links (images_field e r)))"
  by (simp add: row_inline_images_def Let_def inline_images_loop_concat image_links_empty)

lemma length_embed_link: "length (embed_link e tpl url) \<le> 1"
  by (simp add: embed_link_def split: option.splits)

text \<open>
  The image list is never longer than the list of non-empty links, which is never longer
  than the number of comma-separated pieces of the \<open>Images\<close> field, and a link whose
  download fails adds nothing.
\<close>

lemma length_row_inline_images:
  "length (row_inline_images e tpl r) \<le> length (image_links (images_field e r))"
  "length (image_links (images_field e r)) \<le> length (split CHR '','' (images_field e r))"
  unfolding row_inline_images_concat
  by (rule length_concat_le, rule length_embed_link, rule length_image_links)

text \<open>
  Where the constructor raises nothing, every image that was downloaded is in the list,
  decodable or not, and the answer of the row is whatever the document library makes of
  that list.
\<close>

lemma embed_link_no_reject:
  assumes "\<And>b. \<not> inline_image_rejects e b"
  shows "embed_link e tpl url =
     (case download_drive_image e url of
        Some img_bytes \<Rightarrow> [InlineImage tpl img_bytes 2286000]
      | None \<Rightarrow> [])"
  using assms by (simp add: embed_link_def split: option.splits)

lemma render_docx_row_result:
  assumes "open_template e template_bytes template_path = Inr tpl"
  shows "render_docx_row e r template_bytes template_path =
     docx_render e tpl
       (dict_set (as_context (build_context_from_row e r)) ''images''
          (Images (row_inline_images e tpl r)))"
  using assms by (simp add: render_docx_row_def render_with_def Let_def)

lemma data_uris_loop_concat:
  "data_uris_loop e acc urls = acc @ concat (map (data_uri_of_link e) urls)"
proof (induction urls arbitrary: acc)
  case Nil
  then show ?case by simp
next
  case (Cons url urls)
  then show ?case
    by (simp add: data_uri_of_link_def image_bytes_to_data_uri_def split: option.splits)
qed

lemma get_image_data_uris_concat:
  "get_image_data_uris_for_row e r =
     concat (map (data_uri_of_link e) (image_links (images_field e r)))"
  by (simp add: get_image_data_uris_for_row_def Let_def data_uris_loop_concat image_links_empty)

lemma render_examples:
  "open_template example_env None (Some ''template.docx'') = Inr (On_disk ''template.docx'')"
  "image_links (images_field example_env row_a) =
     [''https://drive.google.com/open?id=PNG1'', ''https://drive.google.com/file/d/BAD1/view'',
      ''https://drive.google.com/open?id=HTML'', ''https://example.com/x.png'']"
  "image_links (images_field example_env row_b) = [''nan'']"
  "download_drive_image example_env ''nan'' = None"
  "download_drive_image example_env ''https://drive.google.com/open?id=PNG1'' =
     Some [137, 80, 78, 71]"
  "download_drive_image example_env ''https://drive.google.com/file/d/BAD1/view'' = Some [0]"
  "download_drive_image example_env ''https://drive.google.com/open?id=HTML'' = None"
  "download_drive_image example_env ''https://example.com/x.png'' = None"
  "render_with example_env (On_disk ''template.docx'') row_b = Inr [108, 97, 116, 101]"
  by code_simp+

lemma example_env_no_reject: "\<not> inline_image_rejects example_env b"
  by (simp add: example_env_def)

lemma docx_render_example:
  "docx_render example_env tpl ctx =
     (if (case map_of ctx ''images'' of
            Some (Images ims) \<Rightarrow>
              list_all (\<lambda>im. case im of InlineImage t b w \<Rightarrow> b = [137, 80, 78, 71]) ims
          | _ \<Rightarrow> True)
      then Inr (case map_of ctx ''observation'' of
                  Some (Cell (VStr s)) \<Rightarrow> map of_char s
                | _ \<Rightarrow> [])
      else Inl UnrecognizedImageError)"
  by (simp add: example_env_def)

text \<open>
  C2.  The claim is that an image of unrecognized or corrupt format is skipped and the
  row is rendered all the same.  The source tries this with a handler for
  \<open>UnrecognizedImageError\<close> around the construction of the \<open>InlineImage\<close>.  The constructor
  only stores its arguments; the bytes are decoded while the template is rendered, outside
  that handler.  With a document library that behaves so, the second link of the example
  row, answered with status 200 and type \<open>image/jpeg\<close> but with bytes that are no image,
  stays in the image list, and rendering the row ends with \<open>UnrecognizedImageError\<close>
  instead of document bytes.
\<close>

theorem render_docx_row_corrupt_image:
  "download_drive_image example_env ''https://drive.google.com/file/d/BAD1/view'' = Some [0] \<and>
   row_inline_images example_env (On_disk ''template.docx'') row_a =
     [InlineImage (On_disk ''template.docx'') [137, 80, 78, 71] 2286000,
      InlineImage (On_disk ''template.docx'') [0] 2286000] \<and>
   render_docx_row example_env row_a None (Some ''template.docx'') = Inl UnrecognizedImageError"
proof -
  have imgs: "row_inline_images example_env (On_disk ''template.docx'') row_a =
     [InlineImage (On_disk ''template.docx'') [137, 80, 78, 71] 2286000,
      InlineImage (On_disk ''template.docx'') [0] 2286000]"
    unfolding row_inline_images_concat
    by (simp add: render_examples embed_link_no_reject [OF example_env_no_reject])
  have "render_docx_row example_env row_a None (Some ''template.docx'') =
      Inl UnrecognizedImageError"
    unfolding render_docx_row_result [OF render_examples(1)] imgs
    by (simp add: docx_render_example map_of_dict_set)
  with imgs render_examples(6) show ?thesis
    by simp
qed

section \<open>Inline images of the preview (C10)\<close>

lemma download_with_content_type:
  assumes "startswith t ''image/''"
  shows "download_drive_image (with_content_type e t) url = download_drive_image e url"
proof (cases "requests_get e (''https://drive.google.com/uc?export=download&id='' @
    extract_drive_file_id url)")
  case Request_failed
  then show ?thesis
    by (simp add: download_drive_image_def with_content_type_def Let_def)
next
  case (Http_response status_code header body)
  have "\<not> startswith '''' ''image/''"
    by (simp add: startswith_def)
  with Http_response assms show ?thesis
    by (cases header) (simp_all add: download_drive_image_def with_content_type_def Let_def)
qed

lemma b64encode_with_content_type: "b64encode (with_content_type e t) = b64encode e"
  by (simp add: with_content_type_def)

lemma images_field_with_content_type: "images_field (with_content_type e t) r = images_field e r"
  by (simp add: with_content_type_def images_field_def py_str_def py_or_def truthy_def
      split: cell.split)

text \<open>
  C10.  The preview images of a row are one data URI for every link whose download
  succeeds, in the order of the links.  The MIME type written into the URI is a function
  of the link alone: \<open>image/png\<close> when the text after the last dot of the part before the
  first question mark is \<open>png\<close> in any letter case, \<open>image/jpeg\<close> for \<open>jpg\<close>, \<open>jpeg\<close>
  and everything else.  Declaring every image answer with another image type leaves the
  URIs as they are.
\<close>

theorem data_uri_mime_spec:
  "get_image_data_uris_for_row e r =
     concat (map (data_uri_of_link e) (image_links (images_field e r))) \<and>
   data_uri_of_link e url =
     (case download_drive_image e url of
        Some img_bytes \<Rightarrow> [''data:'' @ mime_for_url url @ '';base64,'' @ b64encode e img_bytes]
      | None \<Rightarrow> []) \<and>
   mime_for_url url =
     (if lower (last (split CHR ''.'' (hd (split CHR ''?'' url)))) = ''png''
      then ''image/png'' else ''image/jpeg'') \<and>
   (lower (last (split CHR ''.'' (hd (split CHR ''?'' url)))) = ''jpg'' \<or>
    lower (last (split CHR ''.'' (hd (split CHR ''?'' url)))) = ''jpeg''
      \<longrightarrow> mime_for_url url = ''image/jpeg'') \<and>
   (startswith t ''image/'' \<longrightarrow>
      get_image_data_uris_for_row (with_content_type e t) r = get_image_data_uris_for_row e r)"
proof (intro conjI impI)
  show "get_image_data_uris_for_row e r =
     concat (map (data_uri_of_link e) (image_links (images_field e r)))"
    by (rule get_image_data_uris_concat)
  show "data_uri_of_link e url =
     (case download_drive_image e url of
        Some img_bytes \<Rightarrow> [''data:'' @ mime_for_url url @ '';base64,'' @ b64encode e img_bytes]
      | None \<Rightarrow> [])"
    by (simp add: data_uri_of_link_def)
  show "mime_for_url url =
     (if lower (last (split CHR ''.'' (hd (split CHR ''?'' url)))) = ''png''
      then ''image/png'' else ''image/jpeg'')"
    by (simp add: mime_for_url_def Let_def)
next
  assume "lower (last (split CHR ''.'' (hd (split CHR ''?'' url)))) = ''jpg'' \<or>
    lower (last (split CHR ''.'' (hd (split CHR ''?'' url)))) = ''jpeg''"
  then show "mime_for_url url = ''image/jpeg''"
    by (simp add: mime_for_url_def Let_def)
next
  assume "startswith t ''image/''"
  then have "data_uri_of_link (with_content_type e t) = data_uri_of_link e"
    by (simp add: data_uri_of_link_def fun_eq_iff download_with_content_type
        b64encode_with_content_type split: option.split)
  then show "get_image_data_uris_for_row (with_content_type e t) r =
      get_image_data_uris_for_row e r"
    by (simp add: get_image_data_uris_concat images_field_with_content_type)
qed

lemma mime_examples:
  "mime_for_url ''https://drive.google.com/open?id=PNG1'' = ''image/jpeg''"
  "mime_for_url ''https://drive.google.com/file/d/BAD1/view'' = ''image/jpeg''"
  "mime_for_url ''https://drive.google.com/file/d/PNG1/photo.PNG?usp=sharing'' = ''image/png''"
  "lower (last (split CHR ''.'' (hd (split CHR ''?'' ''https://host/d/PNG1/a.JPG'')))) = ''jpg''"
  "requests_get example_env ''https://drive.google.com/uc?export=download&id=PNG1'' =
     Http_response 200 (Some ''image/png'') [137, 80, 78, 71]"
  "download_drive_image example_env ''https://drive.google.com/file/d/BAD1/view'' = Some [0]"
  "download_drive_image example_env ''https://drive.google.com/open?id=HTML'' = None"
  "download_drive_image example_env ''https://example.com/x.png'' = None"
  "b64encode example_env [137, 80, 78, 71] = ''iVBORw==''"
  "b64encode example_env [0] = ''AA==''"
  by code_simp+

theorem data_uri_mime_spec_witness:
  "requests_get example_env ''https://drive.google.com/uc?export=download&id=PNG1'' =
     Http_response 200 (Some ''image/png'') [137, 80, 78, 71] \<and>
   get_image_data_uris_for_row example_env row_a =
     [''data:image/jpeg;base64,iVBORw=='', ''data:image/jpeg;base64,AA==''] \<and>
   lower (last (split CHR ''.'' (hd (split CHR ''?'' ''https://host/d/PNG1/a.JPG'')))) = ''jpg'' \<and>
   mime_for_url ''https://host/d/PNG1/a.JPG'' = ''image/jpeg'' \<and>
   mime_for_url ''https://drive.google.com/file/d/PNG1/photo.PNG?usp=sharing'' = ''image/png'' \<and>
   startswith ''image/gif'' ''image/'' \<and>
   get_image_data_uris_for_row (with_content_type example_env ''image/gif'') row_a =
     get_image_data_uris_for_row example_env row_a"
proof -
  note t = data_uri_mime_spec [of example_env row_a _ "''image/gif''"]
  have u: "get_image_data_uris_for_row example_env row_a =
     [''data:image/jpeg;base64,iVBORw=='', ''data:image/jpeg;base64,AA=='']"
    unfolding t [of "''''", THEN conjunct1]
    by (simp add: render_examples mime_examples
        t [THEN conjunct2, THEN conjunct1])
  have j: "mime_for_url ''https://host/d/PNG1/a.JPG'' = ''image/jpeg''"
    using mime_examples(4)
    by (simp add: t [of "''https://host/d/PNG1/a.JPG''", THEN conjunct2, THEN conjunct2,
          THEN conjunct2, THEN conjunct1, THEN mp])
  have g: "startswith ''image/gif'' ''image/''"
    by (simp add: startswith_def)
  have k: "get_image_data_uris_for_row (with_content_type example_env ''image/gif'') row_a =
     get_image_data_uris_for_row example_env row_a"
    using g
    by (rule t [of "''''", THEN conjunct2, THEN conjunct2, THEN conjunct2, THEN conjunct2, THEN mp])
  show ?thesis
    using mime_examples(3,4,5) u j g k by simp
qed

section \<open>The date filter (C3)\<close>

lemma date_matches_parsed:
  "filter (date_matches d)
      [r(''Date_parsed'' \<mapsto> (case p of Some ts \<Rightarrow> VTimestamp ts | None \<Rightarrow> VNaT))] =
     (case p of
        Some ts \<Rightarrow> if on_date ts = d then [r(''Date_parsed'' \<mapsto> VTimestamp ts)] else []
      | None \<Rightarrow> [])"
  by (cases p) (simp_all add: date_matches_def)

lemma filter_map_concat:
  "(\<And>x. filter P [f x] = g x) \<Longrightarrow> filter P (map f xs) = concat (map g xs)"
proof (induction xs)
  case Nil
  then show ?case by simp
next
  case (Cons x xs)
  have "filter P (map f (x # xs)) = filter P [f x] @ filter P (map f xs)"
    by simp
  also have "\<dots> = g x @ concat (map g xs)"
    using Cons.IH [OF Cons.prems] Cons.prems [of x] by (simp only:)
  finally show ?case by simp
qed

lemma add_date_parsed_filter:
  "filter_by_date e df d =
     concat (map (\<lambda>r. case parse_date_cell e df r of
                         Some ts \<Rightarrow>
                           if on_date ts = d then [r(''Date_parsed'' \<mapsto> VTimestamp ts)] else []
                       | None \<Rightarrow> [])
                 (df_rows df))"
  unfolding filter_by_date_def add_date_parsed_def
  by (rule filter_map_concat) (rule date_matches_parsed)

lemma fetch_rows_Inr:
  assumes "fetch_rows e params msg = Inr (sheet_input, gid, date_str, target_date, df_date)"
  shows "\<exists>df. strptime e date_str = Some target_date \<and>
              load_sheet_via_csv e sheet_input gid = Inr df \<and>
              ''Date'' \<in> set (df_columns df) \<and>
              df_date = filter_by_date e df target_date \<and> df_date \<noteq> []"
  using assms
  by (auto simp add: fetch_rows_def Let_def split: if_splits option.splits sum.splits)

text \<open>
  C3.  The filtered row set holds, in sheet order, exactly the rows whose \<open>Date\<close> value
  parses to a timestamp on the target date, each with that timestamp as its
  \<open>Date_parsed\<close>.  Whether a row is kept depends on the calendar date of the timestamp
  alone, not on its hour, minute, second or nanosecond, and a row whose \<open>Date\<close> does not
  parse (its \<open>Date_parsed\<close> is NaT) is never kept.  Both routes obtain their rows through
  this filter.
\<close>

theorem date_filter_spec:
  "filter_by_date e df d =
     concat (map (\<lambda>r. case parse_date_cell e df r of
                         Some ts \<Rightarrow>
                           if on_date ts = d then [r(''Date_parsed'' \<mapsto> VTimestamp ts)] else []
                       | None \<Rightarrow> [])
                 (df_rows df)) \<and>
   (r' \<in> set (filter_by_date e df d)) =
     (\<exists>r \<in> set (df_rows df). \<exists>ts.
        parse_date_cell e df r = Some ts \<and> on_date ts = d \<and>
        r' = r(''Date_parsed'' \<mapsto> VTimestamp ts)) \<and>
   date_matches d (r(''Date_parsed'' \<mapsto> VTimestamp ts)) = (on_date ts = d) \<and>
   date_matches d
     (r(''Date_parsed'' \<mapsto> VTimestamp (ts\<lparr>hour := h, minute := m, second := s, nanosecond := n\<rparr>))) =
     date_matches d (r(''Date_parsed'' \<mapsto> VTimestamp ts)) \<and>
   \<not> date_matches d (r(''Date_parsed'' \<mapsto> VNaT)) \<and>
   (fetch_rows e params msg = Inr (sheet_input, gid, date_str, target_date, df_date) \<longrightarrow>
      (\<exists>df'. load_sheet_via_csv e sheet_input gid = Inr df' \<and>
             df_date = filter_by_date e df' target_date))"
proof (intro conjI impI)
  show "filter_by_date e df d =
     concat (map (\<lambda>r. case parse_date_cell e df r of
                         Some ts \<Rightarrow>
                           if on_date ts = d then [r(''Date_parsed'' \<mapsto> VTimestamp ts)] else []
                       | None \<Rightarrow> [])
                 (df_rows df))"
    by (rule add_date_parsed_filter)
  show "(r' \<in> set (filter_by_date e df d)) =
     (\<exists>r \<in> set (df_rows df). \<exists>ts.
        parse_date_cell e df r = Some ts \<and> on_date ts = d \<and>
        r' = r(''Date_parsed'' \<mapsto> VTimestamp ts))"
  proof -
    have "(r' \<in> set (case p of
                        Some ts \<Rightarrow>
                          if on_date ts = d then [r(''Date_parsed'' \<mapsto> VTimestamp ts)] else []
                      | None \<Rightarrow> [])) =
          (\<exists>ts. p = Some ts \<and> on_date ts = d \<and> r' = r(''Date_parsed'' \<mapsto> VTimestamp ts))"
      for p r
      by (cases p) auto
    then show ?thesis
      unfolding add_date_parsed_filter by simp
  qed
  show "date_matches d (r(''Date_parsed'' \<mapsto> VTimestamp ts)) = (on_date ts = d)"
    by (simp add: date_matches_def)
  show "date_matches d
     (r(''Date_parsed'' \<mapsto> VTimestamp (ts\<lparr>hour := h, minute := m, second := s, nanosecond := n\<rparr>))) =
     date_matches d (r(''Date_parsed'' \<mapsto> VTimestamp ts))"
    by (simp add: date_matches_def)
  show "\<not> date_matches d (r(''Date_parsed'' \<mapsto> VNaT))"
    by (simp add: date_matches_def)
next
  assume "fetch_rows e params msg = Inr (sheet_input, gid, date_str, target_date, df_date)"
  from fetch_rows_Inr [OF this]
  show "\<exists>df'. load_sheet_via_csv e sheet_input gid = Inr df' \<and>
             df_date = filter_by_date e df' target_date"
    by blast
qed

lemma filter_examples:
  "parse_date_cell example_sheet_env example_df row_a =
     Some \<lparr>on_date = \<lparr>year = 2024, month = 3, day = 5\<rparr>,
           hour = 22, minute = 15, second = 0, nanosecond = 0\<rparr>"
  "parse_date_cell example_sheet_env example_df row_b =
     Some \<lparr>on_date = \<lparr>year = 2024, month = 3, day = 5\<rparr>,
           hour = 0, minute = 0, second = 0, nanosecond = 0\<rparr>"
  "parse_date_cell example_sheet_env example_df row_c =
     Some \<lparr>on_date = \<lparr>year = 2024, month = 3, day = 6\<rparr>,
           hour = 0, minute = 0, second = 0, nanosecond = 0\<rparr>"
  "parse_date_cell example_sheet_env example_df row_d = None"
  by code_simp+

theorem date_filter_spec_witness:
  "filter_by_date example_sheet_env example_df example_date = example_filtered \<and>
   (row_a(''Date_parsed'' \<mapsto>
        VTimestamp \<lparr>on_date = \<lparr>year = 2024, month = 3, day = 5\<rparr>,
                    hour = 22, minute = 15, second = 0, nanosecond = 0\<rparr>)
      \<in> set (filter_by_date example_sheet_env example_df example_date)) \<and>
   \<not> date_matches example_date (row_d(''Date_parsed'' \<mapsto> VNaT)) \<and>
   fetch_rows example_sheet_env example_params ''Missing sheet or date for preview.'' =
     Inr (''sheet1'', None, ''2024-03-05'', example_date, example_filtered) \<and>
   (\<exists>df'. load_sheet_via_csv example_sheet_env ''sheet1'' None = Inr df' \<and>
          example_filtered = filter_by_date example_sheet_env df' example_date)"
proof -
  note t = date_filter_spec [of example_sheet_env example_df example_date _ row_d _ _ _ _ _
      example_params "''Missing sheet or date for preview.''" "''sheet1''" None "''2024-03-05''"
      example_date example_filtered]
  have rows: "df_rows example_df = [row_a, row_b, row_c, row_d]"
    by (simp add: example_df_def)
  have f: "filter_by_date example_sheet_env example_df example_date = example_filtered"
    unfolding t [THEN conjunct1]
    by (simp add: rows filter_examples example_filtered_def example_date_def)
  have m: "row_a(''Date_parsed'' \<mapsto>
        VTimestamp \<lparr>on_date = \<lparr>year = 2024, month = 3, day = 5\<rparr>,
                    hour = 22, minute = 15, second = 0, nanosecond = 0\<rparr>)
      \<in> set (filter_by_date example_sheet_env example_df example_date)"
    unfolding f by (simp add: example_filtered_def)
  have n: "\<not> date_matches example_date (row_d(''Date_parsed'' \<mapsto> VNaT))"
    by (rule t [THEN conjunct2, THEN conjunct2, THEN conjunct2, THEN conjunct2, THEN conjunct1])
  have s: "strip ''sheet1'' = ''sheet1''" "strip '' 2024-03-05'' = ''2024-03-05''" "strip [] = []"
    by code_simp+
  have ne: "example_filtered \<noteq> []"
    by (simp add: example_filtered_def)
  have l: "load_sheet_via_csv example_sheet_env ''sheet1'' None = Inr example_df"
    by (simp add: load_sheet_via_csv_def example_sheet_env_def Let_def)
  have c: "''Date'' \<in> set (df_columns example_df)"
    by (simp add: example_df_def)
  have p: "strptime example_sheet_env ''2024-03-05'' = Some example_date"
    by (simp add: example_sheet_env_def example_env_def example_date_def)
  have fr: "fetch_rows example_sheet_env example_params ''Missing sheet or date for preview.'' =
     Inr (''sheet1'', None, ''2024-03-05'', example_date, example_filtered)"
    using ne by (simp add: fetch_rows_def get_or_def example_params_def s Let_def p l c f)
  have ex: "\<exists>df'. load_sheet_via_csv example_sheet_env ''sheet1'' None = Inr df' \<and>
          example_filtered = filter_by_date example_sheet_env df' example_date"
    using fr
    by (rule t [THEN conjunct2, THEN conjunct2, THEN conjunct2, THEN conjunct2, THEN conjunct2,
          THEN mp])
  show ?thesis
    using f m n fr ex by simp
qed

section \<open>The preview index (C8)\<close>







lemma strip_example_params:
  "strip ''sheet1'' = ''sheet1''" "strip '' 2024-03-05'' = ''2024-03-05''" "strip [] = []"
  "strip ''7'' = ''7''" "strip ''0'' = ''0''"
  by code_simp+

lemma filter_example:
  "filter_by_date example_sheet_env example_df example_date = example_filtered"
proof -
  have rows: "df_rows example_df = [row_a, row_b, row_c, row_d]"
    by (simp add: example_df_def)
  show ?thesis
    unfolding add_date_parsed_filter
    by (simp add: rows filter_examples example_filtered_def example_date_def)
qed

lemma fetch_rows_example:
  assumes "params ''sheet_input'' = Some ''sheet1''" and "params ''date'' = Some '' 2024-03-05''"
    and "params ''gid'' = None"
  shows "fetch_rows example_sheet_env params msg =
     Inr (''sheet1'', None, ''2024-03-05'', example_date, example_filtered)"
proof -
  have ne: "example_filtered \<noteq> []"
    by (simp add: example_filtered_def)
  have l: "load_sheet_via_csv example_sheet_env ''sheet1'' None = Inr example_df"
    by (simp add: load_sheet_via_csv_def example_sheet_env_def Let_def)
  have c: "''Date'' \<in> set (df_columns example_df)"
    by (simp add: example_df_def)
  have p: "strptime example_sheet_env ''2024-03-05'' = Some example_date"
    by (simp add: example_sheet_env_def example_env_def example_date_def)
  show ?thesis
    using ne assms
    by (simp add: fetch_rows_def get_or_def strip_example_params Let_def p l c filter_example)
qed

lemma isoformat_example: "isoformat example_date = ''2024-03-05''"
  by code_simp


section \<open>The missing template (C9)\<close>

lemma choose_template_no_upload:
  assumes "case req_files req ''template_file'' of None \<Rightarrow> True | Some u \<Rightarrow> up_filename u = []"
  shows "choose_template req = Inr (None, Some ''template.docx'')"
  using assms by (cases "req_files req ''template_file''") (simp_all add: choose_template_def)

lemma download_zip_template_missing:
  assumes "\<not> path_exists e ''template.docx''"
  shows "download_zip e d None (Some ''template.docx'') df_date =
     Inr (Redirect_index Flash_error
            ''No template uploaded and template.docx not found in project folder.'')"
  using assms by (simp add: download_zip_def os_path_exists_def)

lemma index_after_fetch:
  assumes "req_method req = ''POST''"
    and "fetch_rows e (req_form req) ''Please enter sheet URL/ID and date.'' =
           Inr (sheet_input, gid, date_str, target_date, df_date)"
    and "choose_template req = Inr (template_bytes, template_path)"
  shows "index e req =
     (if get_or (req_form req) ''action'' ''download_zip'' = ''download_zip'' then
        download_zip e target_date template_bytes template_path df_date
      else if get_or (req_form req) ''action'' ''download_zip'' = ''preview'' then
        Inr (Redirect_preview sheet_input (case gid of Some g \<Rightarrow> g | None \<Rightarrow> '''') date_str 0)
      else Inr (Redirect_index Flash_error ''Unknown action.''))"
  using assms by (simp add: index_def Let_def)

lemma fetch_rows_Inl:
  "fetch_rows e params msg = Inl resp \<Longrightarrow> \<exists>c m. resp = Redirect_index c m"
  by (auto simp add: fetch_rows_def Let_def split: if_splits option.splits sum.splits)

lemma index_no_archive:
  assumes no_upload:
      "case req_files req ''template_file'' of None \<Rightarrow> True | Some u \<Rightarrow> up_filename u = []"
    and absent: "\<not> path_exists e ''template.docx''"
  shows "index e req \<noteq> Inr (Send_file name zipf)"
proof (cases "req_method req = ''POST''")
  case False
  then show ?thesis by (simp add: index_def)
next
  case True
  show ?thesis
  proof (cases "fetch_rows e (req_form req) ''Please enter sheet URL/ID and date.''")
    case (Inl resp)
    from fetch_rows_Inl [OF Inl] obtain c m where "resp = Redirect_index c m" by blast
    with True Inl show ?thesis by (simp add: index_def Let_def)
  next
    case (Inr t)
    obtain sheet_input gid date_str target_date df_date
      where t: "t = (sheet_input, gid, date_str, target_date, df_date)"
      by (cases t) auto
    from index_after_fetch [OF True Inr [unfolded t] choose_template_no_upload [OF no_upload]]
      download_zip_template_missing [OF absent]
    show ?thesis by simp
  qed
qed


lemma path_exists_irrelevant:
  "download_drive_image (e\<lparr>path_exists := f\<rparr>) u = download_drive_image e u"
  "images_field (e\<lparr>path_exists := f\<rparr>) r = images_field e r"
  by (simp_all add: download_drive_image_def images_field_def py_str_def py_or_def truthy_def
      Let_def split: cell.split http_result.split)

lemma py_str_path_exists: "py_str (e\<lparr>path_exists := f\<rparr>) v = py_str e v"
  by (cases v) (simp_all add: py_str_def)

lemma py_or_path_exists: "py_or (e\<lparr>path_exists := f\<rparr>) v d = py_or e v d"
  by (simp add: py_or_def truthy_def)

lemma pd_to_datetime_path_exists:
  "pd_to_datetime (e\<lparr>path_exists := f\<rparr>) v = pd_to_datetime e v"
  by (cases v) (simp_all add: pd_to_datetime_def)

lemma build_context_path_exists:
  "build_context_from_row (e\<lparr>path_exists := f\<rparr>) r = build_context_from_row e r"
  by (simp add: build_context_from_row_def py_str_path_exists py_or_path_exists
      pd_to_datetime_path_exists Let_def case_prod_beta split: option.split)

lemma data_uris_path_exists:
  "get_image_data_uris_for_row (e\<lparr>path_exists := f\<rparr>) r = get_image_data_uris_for_row e r"
proof -
  have "data_uri_of_link (e\<lparr>path_exists := f\<rparr>) = data_uri_of_link e"
    by (simp add: data_uri_of_link_def fun_eq_iff path_exists_irrelevant split: option.split)
  then show ?thesis
    by (simp add: get_image_data_uris_concat path_exists_irrelevant)
qed

lemma filter_by_date_path_exists:
  "filter_by_date (e\<lparr>path_exists := f\<rparr>) df d = filter_by_date e df d"
  by (simp add: filter_by_date_def add_date_parsed_def parse_date_cell_def)

lemma fetch_rows_path_exists:
  "fetch_rows (e\<lparr>path_exists := f\<rparr>) params msg = fetch_rows e params msg"
  by (simp add: fetch_rows_def load_sheet_via_csv_def filter_by_date_path_exists Let_def
      split: option.split sum.split)

lemma preview_context_path_exists:
  "preview_context (e\<lparr>path_exists := f\<rparr>) sheet_input gid date_str idx df_date =
     preview_context e sheet_input gid date_str idx df_date"
  by (simp add: preview_context_def build_context_path_exists data_uris_path_exists)

lemma preview_path_exists: "preview (e\<lparr>path_exists := f\<rparr>) req = preview e req"
  by (simp add: preview_def fetch_rows_path_exists preview_context_path_exists Let_def
      split: option.split sum.split prod.split)

text \<open>
  C9.  When the request carries no uploaded template (no file, or a file without a name)
  and \<open>template.docx\<close> does not exist, the home route never answers with an archive,
  whatever else the request holds.  A download request that reaches its rows is
  answered with the error message that the template is missing; a preview request that
  reaches its rows is redirected to the preview route all the same; and the answer of
  the preview route does not depend on which files exist.
\<close>

theorem template_missing:
  assumes "case req_files req ''template_file'' of None \<Rightarrow> True | Some u \<Rightarrow> up_filename u = []"
    and "\<not> path_exists e ''template.docx''"
  shows "index e req \<noteq> Inr (Send_file name zipf) \<and>
    (req_method req = ''POST'' \<and>
     fetch_rows e (req_form req) ''Please enter sheet URL/ID and date.'' =
       Inr (sheet_input, gid, date_str, target_date, df_date) \<longrightarrow>
       (get_or (req_form req) ''action'' ''download_zip'' = ''download_zip'' \<longrightarrow>
          index e req =
            Inr (Redirect_index Flash_error
                   ''No template uploaded and template.docx not found in project folder.'')) \<and>
       (get_or (req_form req) ''action'' ''download_zip'' = ''preview'' \<longrightarrow>
          index e req =
            Inr (Redirect_preview sheet_input (case gid of Some g \<Rightarrow> g | None \<Rightarrow> '''')
                   date_str 0))) \<and>
    preview e req = preview (e\<lparr>path_exists := (\<lambda>p. True)\<rparr>) req"
proof (intro conjI impI)
  show "index e req \<noteq> Inr (Send_file name zipf)"
    using assms by (rule index_no_archive)
  show "preview e req = preview (e\<lparr>path_exists := (\<lambda>p. True)\<rparr>) req"
    by (simp add: preview_path_exists)
next
  assume h: "req_method req = ''POST'' \<and>
     fetch_rows e (req_form req) ''Please enter sheet URL/ID and date.'' =
       Inr (sheet_input, gid, date_str, target_date, df_date)"
  note i = index_after_fetch [OF h [THEN conjunct1] h [THEN conjunct2]
      choose_template_no_upload [OF assms(1)]]
  show "index e req =
            Inr (Redirect_index Flash_error
                   ''No template uploaded and template.docx not found in project folder.'')"
    if "get_or (req_form req) ''action'' ''download_zip'' = ''download_zip''"
    using that i download_zip_template_missing [OF assms(2)] by simp
  show "index e req =
            Inr (Redirect_preview sheet_input (case gid of Some g \<Rightarrow> g | None \<Rightarrow> '''')
                   date_str 0)"
    if "get_or (req_form req) ''action'' ''download_zip'' = ''preview''"
    using that i by simp
qed


theorem template_missing_witness:
  "(case req_files example_request ''template_file'' of
      None \<Rightarrow> True
    | Some u \<Rightarrow> up_filename u = []) \<and>
   \<not> path_exists example_bare_env ''template.docx'' \<and>
   index example_bare_env example_request =
     Inr (Redirect_index Flash_error
            ''No template uploaded and template.docx not found in project folder.'') \<and>
   index example_bare_env (example_request\<lparr>req_form := example_params(''action'' \<mapsto> ''preview'')\<rparr>) =
     Inr (Redirect_preview ''sheet1'' '''' ''2024-03-05'' 0) \<and>
   preview example_bare_env example_request =
     preview (example_bare_env\<lparr>path_exists := (\<lambda>p. True)\<rparr>) example_request"
proof -
  let ?r2 = "example_request\<lparr>req_form := example_params(''action'' \<mapsto> ''preview'')\<rparr>"
  have u1: "case req_files example_request ''template_file'' of
      None \<Rightarrow> True | Some u \<Rightarrow> up_filename u = []"
    by (simp add: example_request_def)
  have u2: "case req_files ?r2 ''template_file'' of
      None \<Rightarrow> True | Some u \<Rightarrow> up_filename u = []"
    by (simp add: example_request_def)
  have a: "\<not> path_exists example_bare_env ''template.docx''"
    by (simp add: example_bare_env_def)
  have f1: "req_method example_request = ''POST'' \<and>
     fetch_rows example_bare_env (req_form example_request)
       ''Please enter sheet URL/ID and date.'' =
       Inr (''sheet1'', None, ''2024-03-05'', example_date, example_filtered)"
    unfolding example_bare_env_def fetch_rows_path_exists
    by (rule conjI, simp add: example_request_def, rule fetch_rows_example)
       (simp_all add: example_request_def example_params_def)
  have f2: "req_method ?r2 = ''POST'' \<and>
     fetch_rows example_bare_env (req_form ?r2) ''Please enter sheet URL/ID and date.'' =
       Inr (''sheet1'', None, ''2024-03-05'', example_date, example_filtered)"
    unfolding example_bare_env_def fetch_rows_path_exists
    by (rule conjI, simp add: example_request_def, rule fetch_rows_example)
       (simp_all add: example_request_def example_params_def)
  have act1: "get_or (req_form example_request) ''action'' ''download_zip'' = ''download_zip''"
    by (simp add: example_request_def get_or_def)
  have act2: "get_or (req_form ?r2) ''action'' ''download_zip'' = ''preview''"
    by (simp add: get_or_def)
  note t1 = template_missing [OF u1 a, of _ _ "''sheet1''" None "''2024-03-05''" example_date
      example_filtered]
  note t2 = template_missing [OF u2 a, of _ _ "''sheet1''" None "''2024-03-05''" example_date
      example_filtered]
  have i1: "index example_bare_env example_request =
     Inr (Redirect_index Flash_error
            ''No template uploaded and template.docx not found in project folder.'')"
    using act1
    by (rule t1 [THEN conjunct2, THEN conjunct1, THEN mp, OF f1, THEN conjunct1, THEN mp])
  have i2: "index example_bare_env ?r2 = Inr (Redirect_preview ''sheet1'' '''' ''2024-03-05'' 0)"
    using t2 [THEN conjunct2, THEN conjunct1, THEN mp, OF f2, THEN conjunct2, THEN mp, OF act2]
    by simp
  have p: "preview example_bare_env example_request =
     preview (example_bare_env\<lparr>path_exists := (\<lambda>p. True)\<rparr>) example_request"
    by (rule t1 [THEN conjunct2, THEN conjunct2])
  show ?thesis
    using u1 a i1 i2 p by simp
qed

section \<open>The archive of rendered documents (C1)\<close>

lemma zip_rows_entries:
  assumes "open_template e template_bytes template_path = Inr tpl"
    and "map (render_with e tpl) rs = map Inr docs"
  shows "zip_rows e d template_bytes template_path zipf rs =
     Inr (zipf @ zip (map (archive_name d) rs) docs)"
  using assms(2)
proof (induction rs arbitrary: zipf docs)
  case Nil
  then show ?case by simp
next
  case (Cons r rs)
  from Cons.prems obtain b docs' where docs: "docs = b # docs'"
    and b: "render_with e tpl r = Inr b"
    and rest: "map (render_with e tpl) rs = map Inr docs'"
    by (cases docs) auto
  have "render_docx_row e r template_bytes template_path = Inr b"
    using assms(1) b by (simp add: render_docx_row_def)
  then show ?case
    by (simp add: Cons.IH [OF rest] writestr_def docs)
qed

text \<open>
  A row that fails to render ends the request with its error: no archive is sent.
\<close>

lemma zip_rows_render_error:
  assumes "open_template e template_bytes template_path = Inr tpl"
    and "render_with e tpl r = Inl err"
    and "map (render_with e tpl) rs = map Inr docs"
  shows "zip_rows e d template_bytes template_path zipf (rs @ r # rest) = Inl err"
  using assms(3)
proof (induction rs arbitrary: zipf docs)
  case Nil
  then show ?case
    using assms(1,2) by (simp add: render_docx_row_def)
next
  case (Cons r' rs)
  from Cons.prems obtain b docs' where b: "render_with e tpl r' = Inr b"
    and rest: "map (render_with e tpl) rs = map Inr docs'"
    by (cases docs) auto
  have "render_docx_row e r' template_bytes template_path = Inr b"
    using assms(1) b by (simp add: render_docx_row_def)
  then show ?case
    by (simp add: Cons.IH [OF rest])
qed

lemma template_check_passes:
  assumes "open_template e template_bytes template_path = Inr tpl"
  shows "(if (case template_bytes of Some b \<Rightarrow> b = [] | None \<Rightarrow> True)
          then (case os_path_exists e template_path of
                  Inl err \<Rightarrow> Inl err
                | Inr ex \<Rightarrow> Inr (\<not> ex))
          else Inr False) = Inr False"
proof (cases "case template_bytes of Some b \<Rightarrow> b = [] | None \<Rightarrow> True")
  case False
  then show ?thesis by simp
next
  case True
  with assms obtain p where "template_path = Some p" "path_exists e p"
    by (cases template_bytes; cases template_path)
       (auto simp add: open_template_def Let_def split: if_splits)
  with True show ?thesis
    by (simp add: os_path_exists_def)
qed

lemma download_zip_entries:
  assumes "open_template e template_bytes template_path = Inr tpl"
    and "map (render_with e tpl) rs = map Inr docs"
  shows "download_zip e d template_bytes template_path rs =
     Inr (Send_file (''night_checks_'' @ isoformat d @ ''.zip'')
            (zip (map (archive_name d) rs) docs))"
  using zip_rows_entries [OF assms, of d "[]"] template_check_passes [OF assms(1)]
  by (simp add: download_zip_def Let_def)

lemma site_slug_no_space: "CHR '' '' \<notin> set (site_slug r)"
  by (auto simp add: site_slug_def replace_char_def case_prod_beta)

lemma archive_name_eq: "(archive_name d r1 = archive_name d r2) = (site_slug r1 = site_slug r2)"
  by (simp add: archive_name_def)

text \<open>
  C1, as amended.  With a template available and every row rendered, the download
  answers with an archive that holds one entry per row, in row order, named
  \<open><date>_<site-slug>.docx\<close> and holding the document of that row; the site slug is the
  parsed site name, or \<open>Site\<close> when the parsed site name is empty, with every space
  replaced by an underscore.  Two rows give two entries, and their names are equal
  exactly when their site slugs are.  Reading the archive by the name of the later row
  yields the bytes of the later row; when the slugs differ, reading by the name of the
  earlier row yields the bytes of the earlier row; when they are equal, both entries
  carry the same name.
\<close>

theorem archive_entries:
  assumes "open_template e template_bytes template_path = Inr tpl"
    and "map (render_with e tpl) rs = map Inr docs"
  shows "download_zip e d template_bytes template_path rs =
       Inr (Send_file (''night_checks_'' @ isoformat d @ ''.zip'')
              (zip (map (archive_name d) rs) docs)) \<and>
     length (zip (map (archive_name d) rs) docs) = length rs \<and>
     archive_name d r = isoformat d @ ''_'' @ site_slug r @ ''.docx'' \<and>
     site_slug r =
       replace_char CHR '' '' CHR ''_''
         (if snd (snd (parse_site_name (row_get r ''Site Name'' (VStr ''Site'')))) \<noteq> []
          then snd (snd (parse_site_name (row_get r ''Site Name'' (VStr ''Site''))))
          else ''Site'') \<and>
     CHR '' '' \<notin> set (site_slug r) \<and>
     (archive_name d r1 = archive_name d r2) = (site_slug r1 = site_slug r2) \<and>
     zip_read [(archive_name d r1, b1), (archive_name d r2, b2)] (archive_name d r2) = Some b2 \<and>
     (site_slug r1 \<noteq> site_slug r2 \<longrightarrow>
        zip_read [(archive_name d r1, b1), (archive_name d r2, b2)] (archive_name d r1) =
          Some b1) \<and>
     (site_slug r1 = site_slug r2 \<longrightarrow>
        map fst [(archive_name d r1, b1), (archive_name d r2, b2)] =
          [archive_name d r2, archive_name d r2])"
proof (intro conjI impI)
  show "download_zip e d template_bytes template_path rs =
       Inr (Send_file (''night_checks_'' @ isoformat d @ ''.zip'')
              (zip (map (archive_name d) rs) docs))"
    using assms by (rule download_zip_entries)
  have "length (map (render_with e tpl) rs) = length (map Inr docs :: (py_error + bytes) list)"
    by (simp only: assms(2))
  then show "length (zip (map (archive_name d) rs) docs) = length rs"
    by simp
  show "archive_name d r = isoformat d @ ''_'' @ site_slug r @ ''.docx''"
    by (simp add: archive_name_def)
  show "site_slug r =
       replace_char CHR '' '' CHR ''_''
         (if snd (snd (parse_site_name (row_get r ''Site Name'' (VStr ''Site'')))) \<noteq> []
          then snd (snd (parse_site_name (row_get r ''Site Name'' (VStr ''Site''))))
          else ''Site'')"
    by (simp add: site_slug_def case_prod_beta)
  show "CHR '' '' \<notin> set (site_slug r)"
    by (rule site_slug_no_space)
  show "(archive_name d r1 = archive_name d r2) = (site_slug r1 = site_slug r2)"
    by (rule archive_name_eq)
  show "zip_read [(archive_name d r1, b1), (archive_name d r2, b2)] (archive_name d r2) = Some b2"
    by (simp add: zip_read_def)
next
  assume "site_slug r1 \<noteq> site_slug r2"
  then have "archive_name d r1 \<noteq> archive_name d r2"
    by (simp add: archive_name_eq)
  then show "zip_read [(archive_name d r1, b1), (archive_name d r2, b2)] (archive_name d r1) =
      Some b1"
    by (simp add: zip_read_def)
next
  assume "site_slug r1 = site_slug r2"
  then show "map fst [(archive_name d r1, b1), (archive_name d r2, b2)] =
          [archive_name d r2, archive_name d r2]"
    by (simp add: archive_name_def)
qed

lemma archive_examples:
  "archive_name example_date row_b = ''2024-03-05_Main_Gate.docx''"
  "archive_name example_date row_e = ''2024-03-05_Main_Gate.docx''"
  "archive_name example_date row_c = ''2024-03-05_Depot.docx''"
  "archive_name example_date row_d = ''2024-03-05_Site.docx''"
  "site_slug row_b = ''Main_Gate''" "site_slug row_e = ''Main_Gate''" "site_slug row_c = ''Depot''"
  "render_with example_env (On_disk ''template.docx'') row_e =
     Inr [103, 97, 116, 101, 32, 111, 112, 101, 110]"
  "render_with example_env (On_disk ''template.docx'') row_c = Inr []"
  "snd (snd (parse_site_name (row_get row_b ''Site Name'' (VStr ''Site'')))) = ''Main Gate''"
  "snd (snd (parse_site_name (row_get row_e ''Site Name'' (VStr ''Site'')))) = ''Main Gate''"
  by code_simp+

lemma rendered_examples:
  "map (render_with example_env (On_disk ''template.docx'')) [row_b, row_e] =
     map Inr [[108, 97, 116, 101], [103, 97, 116, 101, 32, 111, 112, 101, 110]]"
  "map (render_with example_env (On_disk ''template.docx'')) [row_b, row_c] =
     map Inr [[108, 97, 116, 101], []]"
  by (simp_all add: archive_examples render_examples)

text \<open>
  C1, as the claim states it, fails on two rows with the same site name: \<open>writestr\<close>
  appends, so the archive holds two entries under the one name, and not exactly one.
\<close>

theorem archive_counterexample:
  "download_zip example_env example_date None (Some ''template.docx'') [row_b, row_e] =
     Inr (Send_file ''night_checks_2024-03-05.zip''
            [(''2024-03-05_Main_Gate.docx'', [108, 97, 116, 101]),
             (''2024-03-05_Main_Gate.docx'', [103, 97, 116, 101, 32, 111, 112, 101, 110])])"
  by (simp add: download_zip_entries [OF render_examples(1) rendered_examples(1)]
      archive_examples isoformat_example)

theorem archive_entries_witness:
  "open_template example_env None (Some ''template.docx'') = Inr (On_disk ''template.docx'') \<and>
   download_zip example_env example_date None (Some ''template.docx'') [row_b, row_c] =
     Inr (Send_file ''night_checks_2024-03-05.zip''
            [(''2024-03-05_Main_Gate.docx'', [108, 97, 116, 101]),
             (''2024-03-05_Depot.docx'', [])]) \<and>
   site_slug row_b \<noteq> site_slug row_c \<and>
   zip_read [(''2024-03-05_Main_Gate.docx'', [108, 97, 116, 101]), (''2024-03-05_Depot.docx'', [])]
     ''2024-03-05_Main_Gate.docx'' = Some [108, 97, 116, 101] \<and>
   site_slug row_b = site_slug row_e \<and>
   zip_read [(''2024-03-05_Main_Gate.docx'', [108, 97, 116, 101]),
             (''2024-03-05_Main_Gate.docx'', [103, 97, 116, 101, 32, 111, 112, 101, 110])]
     ''2024-03-05_Main_Gate.docx'' = Some [103, 97, 116, 101, 32, 111, 112, 101, 110]"
proof -
  note bc = archive_entries [OF render_examples(1) rendered_examples(2), of example_date row_b
      row_b row_c "[108, 97, 116, 101]" "[]"]
  note be = archive_entries [OF render_examples(1) rendered_examples(1), of example_date row_b
      row_b row_e "[108, 97, 116, 101]" "[103, 97, 116, 101, 32, 111, 112, 101, 110]"]
  have ne: "site_slug row_b \<noteq> site_slug row_c"
    by (simp add: archive_examples)
  have eq: "site_slug row_b = site_slug row_e"
    by (simp add: archive_examples)
  have d: "download_zip example_env example_date None (Some ''template.docx'') [row_b, row_c] =
     Inr (Send_file ''night_checks_2024-03-05.zip''
            [(''2024-03-05_Main_Gate.docx'', [108, 97, 116, 101]),
             (''2024-03-05_Depot.docx'', [])])"
    unfolding bc [THEN conjunct1]
    by (simp add: archive_examples isoformat_example)
  have r1: "zip_read [(''2024-03-05_Main_Gate.docx'', [108, 97, 116, 101]),
        (''2024-03-05_Depot.docx'', [])] ''2024-03-05_Main_Gate.docx'' = Some [108, 97, 116, 101]"
    using bc [THEN conjunct2, THEN conjunct2, THEN conjunct2, THEN conjunct2, THEN conjunct2,
        THEN conjunct2, THEN conjunct2, THEN conjunct1, THEN mp, OF ne]
    by (simp add: archive_examples)
  have r2: "zip_read [(''2024-03-05_Main_Gate.docx'', [108, 97, 116, 101]),
             (''2024-03-05_Main_Gate.docx'', [103, 97, 116, 101, 32, 111, 112, 101, 110])]
     ''2024-03-05_Main_Gate.docx'' = Some [103, 97, 116, 101, 32, 111, 112, 101, 110]"
    using be [THEN conjunct2, THEN conjunct2, THEN conjunct2, THEN conjunct2, THEN conjunct2,
        THEN conjunct2, THEN conjunct1]
    by (simp add: archive_examples)
  show ?thesis
    using render_examples(1) d ne r1 eq r2 by simp
qed

end
